theory Spec2Isabelle
  imports Complex_Main "HOL-Library.Log_Nat" "HOL-Library.Signed_Division"
    "HOL-Library.Multiset"
    "HOL-Library.Code_Target_Numeral"
begin

section \<open>Go strings\<close>

text \<open>
  The resolvers of \<^verbatim>\<open>main.go\<close> work on the text of OCR lines. A Go string is a byte
  sequence holding UTF-8; the OCR client decodes its texts from JSON, so they are valid
  UTF-8, and the model represents a string by its sequence of Unicode code points
  (\<open>rune\<close>s). Go's \<^verbatim>\<open>len\<close> counts bytes: \<open>golen\<close> adds up the UTF-8 widths.
  Searching, counting and cutting at an ASCII character give the same pieces on code
  points as on bytes, because no ASCII byte occurs inside a multi-byte sequence.
\<close>

type_synonym rune = nat
type_synonym gostring = "rune list"

definition S :: "string \<Rightarrow> gostring" where
  \<comment> \<open>an ASCII string literal of the source\<close>
  "S = map of_char"

definition utf8_width :: "rune \<Rightarrow> nat" where
  "utf8_width r = (if r < 128 then 1 else if r < 2048 then 2 else if r < 65536 then 3 else 4)"

definition golen :: "gostring \<Rightarrow> nat" where
  \<comment> \<open>\<^verbatim>\<open>len(s)\<close>\<close>
  "golen s = sum_list (map utf8_width s)"

fun hasPrefix :: "gostring \<Rightarrow> gostring \<Rightarrow> bool" where
  \<comment> \<open>\<^verbatim>\<open>strings.HasPrefix(s, prefix)\<close>\<close>
  "hasPrefix s [] = True"
| "hasPrefix [] (p # ps) = False"
| "hasPrefix (c # cs) (p # ps) = (c = p \<and> hasPrefix cs ps)"

fun contains :: "gostring \<Rightarrow> gostring \<Rightarrow> bool" where
  \<comment> \<open>\<^verbatim>\<open>strings.Contains(s, substr)\<close>\<close>
  "contains [] sub = (sub = [])"
| "contains (c # cs) sub = (hasPrefix (c # cs) sub \<or> contains cs sub)"

definition count_rune :: "gostring \<Rightarrow> rune \<Rightarrow> nat" where
  \<comment> \<open>\<^verbatim>\<open>strings.Count(s, substr)\<close> for a one-character \<^verbatim>\<open>substr\<close>\<close>
  "count_rune s c = length (filter (\<lambda>x. x = c) s)"

fun lastIndex_from :: "nat \<Rightarrow> gostring \<Rightarrow> rune \<Rightarrow> int \<Rightarrow> int" where
  "lastIndex_from i [] c found = found"
| "lastIndex_from i (x # xs) c found =
     lastIndex_from (Suc i) xs c (if x = c then int i else found)"

definition lastIndex :: "gostring \<Rightarrow> rune \<Rightarrow> int" where
  \<comment> \<open>\<^verbatim>\<open>strings.LastIndex(s, substr)\<close> for a one-character \<^verbatim>\<open>substr\<close>: the position of
      its last occurrence, \<open>-1\<close> when there is none\<close>
  "lastIndex s c = lastIndex_from 0 s c (- 1)"

definition slice_to :: "gostring \<Rightarrow> int \<Rightarrow> gostring" where
  \<comment> \<open>\<^verbatim>\<open>s[:i]\<close>, used with \<open>0 \<le> i \<le> len(s)\<close> only\<close>
  "slice_to s i = take (nat i) s"

definition slice_from :: "gostring \<Rightarrow> int \<Rightarrow> gostring" where
  \<comment> \<open>\<^verbatim>\<open>s[i:]\<close>, used with \<open>0 \<le> i \<le> len(s)\<close> only\<close>
  "slice_from s i = drop (nat i) s"

definition replaceAll_rune :: "gostring \<Rightarrow> rune \<Rightarrow> gostring \<Rightarrow> gostring" where
  \<comment> \<open>\<^verbatim>\<open>strings.ReplaceAll(s, old, new)\<close> for a one-character \<^verbatim>\<open>old\<close>\<close>
  "replaceAll_rune s old new = concat (map (\<lambda>x. if x = old then new else [x]) s)"

abbreviation comma :: rune where "comma \<equiv> 44"
abbreviation period :: rune where "period \<equiv> 46"

section \<open>strconv.ParseFloat\<close>

text \<open>
  \<^verbatim>\<open>strconv.ParseFloat(s, 64)\<close> belongs to Go's library. It is modelled from its
  documentation for decimal numerals: an optional sign, digits with an optional decimal
  point, at least one digit. The result is the float64 nearest to the decimal value,
  ties to even (a float64 is represented by the rational it denotes); a value that rounds
  beyond the largest float64 is \<open>ErrRange\<close>. The library also accepts an exponent, a
  hexadecimal mantissa, underscores between digits and the words inf, infinity and nan;
  these are outside the model, which answers \<open>ErrSyntax\<close> for them. No string the
  resolvers pass to \<open>parseAmount\<close> contains any of them: a capture of an amount consists
  of digits, commas and periods (\<open>patterns_amount\<close> below).
\<close>

datatype num_error = ErrSyntax | ErrRange

definition is_digit :: "rune \<Rightarrow> bool" where
  "is_digit c = (48 \<le> c \<and> c \<le> 57)"

definition digits_value :: "gostring \<Rightarrow> nat" where
  "digits_value ds = foldl (\<lambda>acc c. 10 * acc + (c - 48)) 0 ds"

definition pow2 :: "int \<Rightarrow> rat" where
  "pow2 e = (if 0 \<le> e then 2 ^ nat e else 1 / 2 ^ nat (- e))"

definition shift_frac :: "int \<Rightarrow> nat \<times> nat \<Rightarrow> nat \<times> nat" where
  \<comment> \<open>the fraction \<open>n / d\<close> divided by \<open>2\<^sup>q\<close>\<close>
  "shift_frac q f = (case f of (n, d) \<Rightarrow>
                       if 0 \<le> q then (n, d * 2 ^ nat q) else (n * 2 ^ nat (- q), d))"

definition ilog2 :: "nat \<Rightarrow> nat \<Rightarrow> int" where
  \<comment> \<open>\<open>\<lfloor>log\<^sub>2 (n / d)\<rfloor>\<close> for \<open>n, d > 0\<close>: the bit lengths give it up to one\<close>
  "ilog2 n d = (let b = bitlen (int n) - bitlen (int d)
                in case shift_frac b (n, d) of (n', d') \<Rightarrow> if d' \<le> n' then b else b - 1)"

definition roundHalfEven :: "nat \<Rightarrow> nat \<Rightarrow> nat" where
  \<comment> \<open>\<open>n / d\<close> rounded to the nearest integer, a tie to the even one\<close>
  "roundHalfEven n d = (let f = n div d; r = n mod d
                        in if 2 * r < d then f else if d < 2 * r then f + 1
                           else if even f then f else f + 1)"

definition float64 :: "nat \<Rightarrow> nat \<Rightarrow> rat option" where
  \<comment> \<open>the float64 nearest to \<open>n / d\<close> (53 significant bits, exponents from \<open>-1022\<close> to
      \<open>1023\<close>), \<open>None\<close> when \<open>n / d\<close> rounds beyond the largest float64\<close>
  "float64 n d = (if n = 0 then Some 0
                  else let e0 = ilog2 n d
                       in if 1024 \<le> e0 then None
                          else let e = max e0 (- 1022);
                                   m = (case shift_frac (e - 52) (n, d) of
                                          (n', d') \<Rightarrow> roundHalfEven n' d')
                               in if e = 1023 \<and> m = 2 ^ 53 then None
                                  else Some (of_nat m * pow2 (e - 52)))"

definition parse_decimal :: "gostring \<Rightarrow> (nat \<times> nat) option" where
  \<comment> \<open>an unsigned decimal numeral: its digits read as one number, and the number of
      digits after the point\<close>
  "parse_decimal s =
     (let ip = takeWhile is_digit s; rest = dropWhile is_digit s
      in if rest = [] then (if ip = [] then None else Some (digits_value ip, 0))
         else if hd rest = period \<and> list_all is_digit (tl rest) \<and> (ip \<noteq> [] \<or> tl rest \<noteq> [])
              then Some (digits_value (ip @ tl rest), length (tl rest))
         else None)"

definition ParseFloat :: "gostring \<Rightarrow> num_error + rat" where
  "ParseFloat s =
     (let neg = (s \<noteq> [] \<and> hd s = 45);
          body = (if s \<noteq> [] \<and> (hd s = 45 \<or> hd s = 43) then tl s else s)
      in case parse_decimal body of
           None \<Rightarrow> Inl ErrSyntax
         | Some (n, k) \<Rightarrow>
             (case float64 n (10 ^ k) of
                None \<Rightarrow> Inl ErrRange
              | Some f \<Rightarrow> Inr (if neg then - f else f)))"

section \<open>The numeric locale parser\<close>

definition processedStr :: "gostring \<Rightarrow> gostring" where
  \<comment> \<open>the variable \<^verbatim>\<open>processedStr\<close> of \<^verbatim>\<open>parseAmount\<close> when it reaches \<^verbatim>\<open>ParseFloat\<close>\<close>
  "processedStr amountStr =
     (let commaCount = count_rune amountStr comma;
          periodCount = count_rune amountStr period;
          processed = amountStr
      in if (commaCount = 1 \<and> periodCount \<ge> 1) \<or> (commaCount = 1 \<and> periodCount = 0) then
           (let lastCommaIndex = lastIndex processed comma
            in if lastCommaIndex \<noteq> - 1 then
                 (let processed = slice_to processed lastCommaIndex @ [period]
                                   @ slice_from processed (lastCommaIndex + 1)
                  in replaceAll_rune (slice_to processed lastCommaIndex) period [])
               else processed)
         else if periodCount = 1 then replaceAll_rune processed comma []
         else if commaCount = 0 \<and> periodCount = 0 then processed
         else if periodCount > 1 then
           (let lastPeriodIndex = lastIndex processed period
            in if lastPeriodIndex \<noteq> - 1 then
                 (let processed = replaceAll_rune (slice_to processed lastPeriodIndex) period []
                                   @ slice_from processed lastPeriodIndex
                  in replaceAll_rune processed comma [])
               else processed)
         else if commaCount > 1 then
           (let lastCommaIndex = lastIndex processed comma
            in if lastCommaIndex \<noteq> - 1 then
                 (let processed = slice_to processed lastCommaIndex @ [period]
                                   @ slice_from processed (lastCommaIndex + 1)
                  in replaceAll_rune (slice_to processed lastCommaIndex) comma [])
               else processed)
         else processed)"

definition parseAmount :: "gostring \<Rightarrow> num_error + rat" where
  "parseAmount amountStr = ParseFloat (processedStr amountStr)"

section \<open>Regular expressions\<close>

text \<open>
  The resolvers match with Go's \<^verbatim>\<open>regexp\<close> package: a match starts at the leftmost
  position where one exists, and among the matches starting there it is the one a
  backtracking search finds first (a greedy star tries one more iteration before it
  stops, an alternation tries its left branch first). \<open>rmatch r s c\<close> lists the ways in
  which \<open>r\<close> matches at the head of \<open>s\<close>, in the order in which that search comes to them:
  each is the text left after the match, with the capture groups. The head of the list is
  the match Go reports.

  A pattern is written as a term of \<open>re\<close>. A character class is a list of inclusive
  ranges of code points. Under the flag \<^verbatim>\<open>(?i)\<close> a letter also matches its other case and the
  code points that fold to it: U+017F (long s) for \<^verbatim>\<open>s\<close> and U+212A (Kelvin sign) for \<^verbatim>\<open>k\<close>;
  \<open>fold_ranges\<close> adds them to a class.
\<close>

datatype re =
    Cls "(rune \<times> rune) list"
  | NCls "(rune \<times> rune) list"
  | Eps
  | Seq re re
  | Alt re re
  | Star re
  | Grp nat re

type_synonym caps = "nat \<Rightarrow> gostring option"

definition in_ranges :: "(rune \<times> rune) list \<Rightarrow> rune \<Rightarrow> bool" where
  "in_ranges rs x = list_ex (\<lambda>r. fst r \<le> x \<and> x \<le> snd r) rs"

primrec star_list ::
  "(gostring \<Rightarrow> caps \<Rightarrow> (gostring \<times> caps) list) \<Rightarrow> gostring \<Rightarrow>
   gostring \<Rightarrow> caps \<Rightarrow> (gostring \<times> caps) list" where
  "star_list body [] s c = [(s, c)]"
| "star_list body (f # fuel) s c =
     concat (map (\<lambda>m. if length (fst m) < length s then star_list body fuel (fst m) (snd m)
                       else [])
               (body s c))
     @ [(s, c)]"

primrec rmatch :: "re \<Rightarrow> gostring \<Rightarrow> caps \<Rightarrow> (gostring \<times> caps) list" where
  "rmatch (Cls rs) s c =
     (case s of [] \<Rightarrow> [] | x # xs \<Rightarrow> if in_ranges rs x then [(xs, c)] else [])"
| "rmatch (NCls rs) s c =
     (case s of [] \<Rightarrow> [] | x # xs \<Rightarrow> if in_ranges rs x then [] else [(xs, c)])"
| "rmatch Eps s c = [(s, c)]"
| "rmatch (Seq a b) s c = concat (map (\<lambda>m. rmatch b (fst m) (snd m)) (rmatch a s c))"
| "rmatch (Alt a b) s c = rmatch a s c @ rmatch b s c"
| "rmatch (Star a) s c = star_list (rmatch a) s s c"
| "rmatch (Grp i a) s c =
     map (\<lambda>m. (fst m, (snd m)(i \<mapsto> take (length s - length (fst m)) s))) (rmatch a s c)"

text \<open>
  A star iterates at most once for each character left (its second argument counts them
  down), and an iteration that consumes nothing is not repeated; no starred subpattern of
  this program matches the empty string.
\<close>

primrec ngroups :: "re \<Rightarrow> nat" where
  "ngroups (Cls rs) = 0"
| "ngroups (NCls rs) = 0"
| "ngroups Eps = 0"
| "ngroups (Seq a b) = max (ngroups a) (ngroups b)"
| "ngroups (Alt a b) = max (ngroups a) (ngroups b)"
| "ngroups (Star a) = ngroups a"
| "ngroups (Grp i a) = max i (ngroups a)"

definition match_here :: "re \<Rightarrow> gostring \<Rightarrow> (gostring \<times> caps) option" where
  \<comment> \<open>the first match of \<open>r\<close> at the head of \<open>s\<close>: the text after it, and the groups\<close>
  "match_here r s = (case rmatch r s Map.empty of [] \<Rightarrow> None | m # ms \<Rightarrow> Some m)"

definition submatches :: "re \<Rightarrow> gostring \<Rightarrow> gostring \<times> caps \<Rightarrow> gostring list" where
  \<comment> \<open>the slice Go returns for a match: the matched text, then the text of each group,
      \<^verbatim>\<open>""\<close> for a group that took no part\<close>
  "submatches r s m =
     take (length s - length (fst m)) s
       # map (\<lambda>i. case snd m i of None \<Rightarrow> [] | Some w \<Rightarrow> w) [1..<Suc (ngroups r)]"

fun FindStringSubmatch :: "re \<Rightarrow> gostring \<Rightarrow> gostring list" where
  \<comment> \<open>\<^verbatim>\<open>re.FindStringSubmatch(s)\<close>; \<open>[]\<close> stands for \<^verbatim>\<open>nil\<close>\<close>
  "FindStringSubmatch r [] =
     (case match_here r [] of None \<Rightarrow> [] | Some m \<Rightarrow> submatches r [] m)"
| "FindStringSubmatch r (x # xs) =
     (case match_here r (x # xs) of
        None \<Rightarrow> FindStringSubmatch r xs
      | Some m \<Rightarrow> submatches r (x # xs) m)"

fun find_all_from :: "re \<Rightarrow> nat \<Rightarrow> gostring \<Rightarrow> gostring list list" where
  "find_all_from r skip [] = []"
| "find_all_from r skip (x # xs) =
     (if 0 < skip then find_all_from r (skip - 1) xs
      else case match_here r (x # xs) of
             None \<Rightarrow> find_all_from r 0 xs
           | Some m \<Rightarrow>
               submatches r (x # xs) m
                 # find_all_from r (length (x # xs) - length (fst m) - 1) xs)"

definition FindAllStringSubmatch :: "re \<Rightarrow> gostring \<Rightarrow> gostring list list" where
  \<comment> \<open>\<^verbatim>\<open>re.FindAllStringSubmatch(s, -1)\<close> for a pattern that matches no empty string: the
      successive matches, each search starting where the last match ended\<close>
  "FindAllStringSubmatch r s = find_all_from r 0 s"

definition FindAllString :: "re \<Rightarrow> gostring \<Rightarrow> gostring list" where
  \<comment> \<open>\<^verbatim>\<open>re.FindAllString(s, -1)\<close>, under the same proviso\<close>
  "FindAllString r s = map hd (find_all_from r 0 s)"

definition FindString :: "re \<Rightarrow> gostring \<Rightarrow> gostring" where
  \<comment> \<open>\<^verbatim>\<open>re.FindString(s)\<close>: the text of the leftmost match, \<^verbatim>\<open>""\<close> when there is none\<close>
  "FindString r s = (case FindStringSubmatch r s of [] \<Rightarrow> [] | w # ws \<Rightarrow> w)"

definition MatchString :: "re \<Rightarrow> gostring \<Rightarrow> bool" where
  "MatchString r s = (FindStringSubmatch r s \<noteq> [])"

subsection \<open>Writing patterns\<close>

definition seqs :: "re list \<Rightarrow> re" where
  "seqs rs = foldr Seq rs Eps"

definition alts :: "re list \<Rightarrow> re" where
  \<comment> \<open>\<^verbatim>\<open>a|b|c\<close>, for a non-empty list\<close>
  "alts rs = foldr Alt (butlast rs) (last rs)"

definition opt :: "re \<Rightarrow> re" where
  \<comment> \<open>\<^verbatim>\<open>r?\<close>\<close>
  "opt r = Alt r Eps"

definition plus :: "re \<Rightarrow> re" where
  \<comment> \<open>\<^verbatim>\<open>r+\<close>\<close>
  "plus r = Seq r (Star r)"

primrec upto_times :: "nat \<Rightarrow> re \<Rightarrow> re" where
  \<comment> \<open>\<^verbatim>\<open>r{0,n}\<close>, that is \<^verbatim>\<open>(r(r(r)?)?)?\<close>\<close>
  "upto_times 0 r = Eps"
| "upto_times (Suc n) r = opt (Seq r (upto_times n r))"

primrec times :: "nat \<Rightarrow> re \<Rightarrow> re \<Rightarrow> re" where
  \<comment> \<open>\<open>n\<close> copies of \<open>r\<close>, then \<open>tail\<close>\<close>
  "times 0 r tail = tail"
| "times (Suc n) r tail = Seq r (times n r tail)"

definition rep :: "nat \<Rightarrow> nat \<Rightarrow> re \<Rightarrow> re" where
  \<comment> \<open>\<^verbatim>\<open>r{n,m}\<close>\<close>
  "rep n m r = times n r (upto_times (m - n) r)"

definition rep_min :: "nat \<Rightarrow> re \<Rightarrow> re" where
  \<comment> \<open>\<^verbatim>\<open>r{n,}\<close>\<close>
  "rep_min n r = times n r (Star r)"

definition chr :: "rune \<Rightarrow> re" where
  "chr c = Cls [(c, c)]"

definition lit :: "string \<Rightarrow> re" where
  \<comment> \<open>an ASCII literal\<close>
  "lit w = seqs (map chr (S w))"

definition fold_range :: "rune \<times> rune \<Rightarrow> (rune \<times> rune) list" where
  \<comment> \<open>a range of a class under \<^verbatim>\<open>(?i)\<close>: the range, its lower-case letters as capitals, its
      capitals as lower-case letters, and the two code points that fold to \<^verbatim>\<open>k\<close> and \<^verbatim>\<open>s\<close>\<close>
  "fold_range r =
     (case r of (lo, hi) \<Rightarrow>
        [(lo, hi)]
        @ (if max lo 97 \<le> min hi 122 then [(max lo 97 - 32, min hi 122 - 32)] else [])
        @ (if max lo 65 \<le> min hi 90 then [(max lo 65 + 32, min hi 90 + 32)] else [])
        @ (if (lo \<le> 107 \<and> 107 \<le> hi) \<or> (lo \<le> 75 \<and> 75 \<le> hi) then [(8490, 8490)] else [])
        @ (if (lo \<le> 115 \<and> 115 \<le> hi) \<or> (lo \<le> 83 \<and> 83 \<le> hi) then [(383, 383)] else []))"

definition fold_ranges :: "(rune \<times> rune) list \<Rightarrow> (rune \<times> rune) list" where
  "fold_ranges rs = concat (map fold_range rs)"

definition icls :: "(rune \<times> rune) list \<Rightarrow> re" where
  \<comment> \<open>a class under \<^verbatim>\<open>(?i)\<close>\<close>
  "icls rs = Cls (fold_ranges rs)"

definition ilit :: "string \<Rightarrow> re" where
  \<comment> \<open>an ASCII literal under \<^verbatim>\<open>(?i)\<close>\<close>
  "ilit w = seqs (map (\<lambda>c. icls [(c, c)]) (S w))"

definition ws :: re where
  \<comment> \<open>\<^verbatim>\<open>\s\<close>: tab, line feed, form feed, carriage return, space\<close>
  "ws = Cls [(9, 10), (12, 13), (32, 32)]"

definition digit :: re where
  \<comment> \<open>\<^verbatim>\<open>\d\<close>\<close>
  "digit = Cls [(48, 57)]"

section \<open>More of Go's string library\<close>

text \<open>
  \<^verbatim>\<open>strings.ToLower\<close> maps every code point by \<^verbatim>\<open>unicode.ToLower\<close>. The program only asks
  whether the lowered text contains an ASCII word, or strips it down to \<^verbatim>\<open>[a-z0-9]\<close>, so what
  matters is which code points become which ASCII letter: the capitals \<^verbatim>\<open>A-Z\<close>, U+0130
  (capital I with dot, lowered to \<^verbatim>\<open>i\<close>) and U+212A (Kelvin sign, lowered to \<^verbatim>\<open>k\<close>). Every
  other code point outside ASCII is lowered to a code point outside ASCII; the model leaves
  it as it is.
\<close>

definition lower_rune :: "rune \<Rightarrow> rune" where
  "lower_rune c = (if 65 \<le> c \<and> c \<le> 90 then c + 32
                   else if c = 304 then 105 else if c = 8490 then 107 else c)"

definition ToLower :: "gostring \<Rightarrow> gostring" where
  "ToLower s = map lower_rune s"

definition is_space :: "rune \<Rightarrow> bool" where
  \<comment> \<open>\<^verbatim>\<open>unicode.IsSpace\<close>\<close>
  "is_space c = (c \<in> set [9, 10, 11, 12, 13, 32, 133, 160, 5760, 8232, 8233, 8239, 8287, 12288]
                 \<or> (8192 \<le> c \<and> c \<le> 8202))"

definition TrimSpace :: "gostring \<Rightarrow> gostring" where
  "TrimSpace s = rev (dropWhile is_space (rev (dropWhile is_space s)))"

section \<open>Lines and Go's int\<close>

record TextLine =
  Text :: gostring
  X :: int
  Y :: int
  Width :: int
  Height :: int

text \<open>
  Go's \<^verbatim>\<open>int\<close> is taken to be 64 bits wide: a product wraps around, and \<^verbatim>\<open>/\<close> truncates
  towards zero (\<open>sdiv\<close>).
\<close>

definition wrap64 :: "int \<Rightarrow> int" where
  "wrap64 i = (i + 2 ^ 63) mod 2 ^ 64 - 2 ^ 63"

definition go_mul :: "int \<Rightarrow> int \<Rightarrow> int" where
  "go_mul a b = wrap64 (a * b)"

definition go_div :: "int \<Rightarrow> int \<Rightarrow> int" where
  \<comment> \<open>for a divisor other than \<open>0\<close> and \<open>-1\<close>\<close>
  "go_div a b = a sdiv b"

definition max_Y :: "TextLine list \<Rightarrow> int" where
  \<comment> \<open>\<^verbatim>\<open>maxY := 0; for _, line := range textLines { if line.Y > maxY { maxY = line.Y } }\<close>\<close>
  "max_Y textLines = foldl (\<lambda>maxY line. if Y line > maxY then Y line else maxY) 0 textLines"

definition max_X :: "TextLine list \<Rightarrow> int" where
  "max_X textLines = foldl (\<lambda>maxX line. if X line > maxX then X line else maxX) 0 textLines"

section \<open>The document currency\<close>

abbreviation euro :: rune where "euro \<equiv> 8364"
abbreviation pound :: rune where "pound \<equiv> 163"
abbreviation dollar :: rune where "dollar \<equiv> 36"

record currencyCount =
  USD :: nat
  EUR :: nat
  GBP :: nat

definition count_line :: "currencyCount \<Rightarrow> TextLine \<Rightarrow> currencyCount" where
  \<comment> \<open>the body of the loop over the lines in \<^verbatim>\<open>detectDocumentCurrency\<close>\<close>
  "count_line cnt line =
     (let text = Text line;
          lowerText = ToLower text;
          cnt = (if contains text [dollar] then cnt\<lparr>USD := USD cnt + 1\<rparr> else cnt);
          cnt = (if contains text [euro] then cnt\<lparr>EUR := EUR cnt + 2\<rparr> else cnt);
          cnt = (if contains text [pound] then cnt\<lparr>GBP := GBP cnt + 1\<rparr> else cnt);
          cnt = (if contains lowerText (S ''usd'') \<or> contains lowerText (S ''dollar'')
                 then cnt\<lparr>USD := USD cnt + 1\<rparr> else cnt);
          cnt = (if contains lowerText (S ''eur'') \<or> contains lowerText (S ''euro'')
                 then cnt\<lparr>EUR := EUR cnt + 2\<rparr> else cnt);
          cnt = (if contains lowerText (S ''gbp'') \<or> contains lowerText (S ''pound'')
                 then cnt\<lparr>GBP := GBP cnt + 1\<rparr> else cnt)
      in cnt)"

definition count_of :: "currencyCount \<Rightarrow> gostring \<Rightarrow> nat" where
  \<comment> \<open>\<^verbatim>\<open>currencyCount[key]\<close>\<close>
  "count_of cnt key = (if key = S ''USD'' then USD cnt else if key = S ''EUR'' then EUR cnt
                       else if key = S ''GBP'' then GBP cnt else 0)"

fun most_frequent :: "currencyCount \<Rightarrow> gostring list \<Rightarrow> nat \<Rightarrow> gostring \<Rightarrow> gostring" where
  \<comment> \<open>\<^verbatim>\<open>for currency, count := range currencyCount { if count > maxCount { ... } }\<close>, the
      keys coming in the order \<open>keys\<close>\<close>
  "most_frequent cnt [] maxCount mostFrequentCurrency = mostFrequentCurrency"
| "most_frequent cnt (currency # keys) maxCount mostFrequentCurrency =
     (if count_of cnt currency > maxCount
      then most_frequent cnt keys (count_of cnt currency) currency
      else most_frequent cnt keys maxCount mostFrequentCurrency)"

text \<open>
  \<^verbatim>\<open>detectDocumentCurrency\<close> ranges over a Go map, and Go leaves the order of that iteration to
  the runtime, which varies it from one loop to the next. The order is therefore an argument
  of the model: \<open>order\<close> lists the three keys \<^verbatim>\<open>USD\<close>, \<^verbatim>\<open>EUR\<close>, \<^verbatim>\<open>GBP\<close> as this run's loop
  visits them.
\<close>

definition detectDocumentCurrency :: "gostring list \<Rightarrow> TextLine list \<Rightarrow> gostring" where
  "detectDocumentCurrency order textLines =
     most_frequent (foldl count_line \<lparr>USD = 0, EUR = 0, GBP = 0\<rparr> textLines) order 0 (S ''EUR'')"

definition key_orders :: "gostring list list" where
  \<comment> \<open>the six orders in which a loop can visit the three keys\<close>
  "key_orders =
     [[S ''USD'', S ''EUR'', S ''GBP''], [S ''USD'', S ''GBP'', S ''EUR''],
      [S ''EUR'', S ''USD'', S ''GBP''], [S ''EUR'', S ''GBP'', S ''USD''],
      [S ''GBP'', S ''USD'', S ''EUR''], [S ''GBP'', S ''EUR'', S ''USD'']]"

section \<open>The amount resolver\<close>

definition sep :: re where
  \<comment> \<open>\<^verbatim>\<open>[.,]\<close>\<close>
  "sep = Cls [(period, period), (comma, comma)]"

definition amount_re :: re where
  \<comment> \<open>\<^verbatim>\<open>\d{1,3}(?:[.,]\d{3})*[.,]\d{2}\<close>\<close>
  "amount_re = seqs [rep 1 3 digit, Star (Seq sep (rep 3 3 digit)), sep, rep 2 2 digit]"

definition cursym :: re where
  \<comment> \<open>\<^verbatim>\<open>[\$\x{20AC}\x{A3}]\<close>: the dollar, euro (U+20AC) and pound (U+00A3) signs\<close>
  "cursym = Cls [(dollar, dollar), (euro, euro), (pound, pound)]"

definition curcode_i :: re where
  \<comment> \<open>\<^verbatim>\<open>[\$\x{20AC}\x{A3}]|EUR|USD|GBP\<close> under \<^verbatim>\<open>(?i)\<close>\<close>
  "curcode_i = alts [cursym, ilit ''EUR'', ilit ''USD'', ilit ''GBP'']"

definition curcode :: re where
  \<comment> \<open>\<^verbatim>\<open>[\$\x{20AC}\x{A3}]|EUR|USD|GBP\<close>\<close>
  "curcode = alts [cursym, lit ''EUR'', lit ''USD'', lit ''GBP'']"

definition label1 :: "string \<Rightarrow> re list" where
  \<comment> \<open>\<^verbatim>\<open>(?i)total:?\s*\<close>\<close>
  "label1 w = [ilit w, opt (chr 58), Star ws]"

definition label2 :: "string \<Rightarrow> string \<Rightarrow> re list" where
  \<comment> \<open>\<^verbatim>\<open>(?i)amount\s*due:?\s*\<close>\<close>
  "label2 w1 w2 = [ilit w1, Star ws, ilit w2, opt (chr 58), Star ws]"

definition labels :: "re list list" where
  \<comment> \<open>the labels of the eight labelled patterns of each family, and the empty label of
      the ninth\<close>
  "labels =
     [label1 ''total'', label2 ''amount'' ''due'', label2 ''balance'' ''due'',
      label2 ''grand'' ''total'', label2 ''total'' ''amount'', label2 ''total'' ''due'',
      label2 ''invoice'' ''total'', label2 ''payment'' ''due'', []]"

definition before_pattern :: "re list \<Rightarrow> bool \<times> re" where
  \<comment> \<open>label, then \<^verbatim>\<open>([\$\x{20AC}\x{A3}])\s*(\d{1,3}(?:[.,]\d{3})*[.,]\d{2})\<close>\<close>
  "before_pattern label = (False, seqs (label @ [Grp 1 cursym, Star ws, Grp 2 amount_re]))"

definition after_pattern :: "re list \<Rightarrow> bool \<times> re" where
  \<comment> \<open>label, then \<^verbatim>\<open>(\d{1,3}(?:[.,]\d{3})*[.,]\d{2})\s*([\$\x{20AC}\x{A3}]|EUR|USD|GBP)\<close>\<close>
  "after_pattern label = (True, seqs (label @ [Grp 1 amount_re, Star ws, Grp 2 curcode_i]))"

text \<open>
  The eighteen entries of \<^verbatim>\<open>patterns\<close>. The source tells the two families apart by
  \<^verbatim>\<open>strings.Contains(pattern, ...)\<close> on the pattern's text, looking for the tail of the second
  family; the flag of an entry is the outcome of that test.
\<close>

definition patterns :: "(bool \<times> re) list" where
  "patterns = map before_pattern labels @ map after_pattern labels"

definition patternsNoCurrency :: "re list" where
  "patternsNoCurrency = map (\<lambda>label. seqs (label @ [Grp 1 amount_re])) (butlast labels)"

definition decimal_pattern :: re where
  \<comment> \<open>\<^verbatim>\<open>([\$\x{20AC}\x{A3}])?\s*(\d{1,3}(?:[.,]\d{3})*[.,]\d{2})(?:\s*([\$\x{20AC}\x{A3}]|EUR|USD|GBP))?\<close>\<close>
  "decimal_pattern =
     seqs [opt (Grp 1 cursym), Star ws, Grp 2 amount_re, opt (Seq (Star ws) (Grp 3 curcode))]"

definition currencyMap :: "gostring \<Rightarrow> gostring option" where
  "currencyMap key =
     (if key = [dollar] then Some (S ''USD'')
      else if key = [euro] then Some (S ''EUR'')
      else if key = [pound] then Some (S ''GBP'')
      else if key = S ''EUR'' then Some (S ''EUR'')
      else if key = S ''USD'' then Some (S ''USD'')
      else if key = S ''GBP'' then Some (S ''GBP'')
      else if key = S ''eur'' then Some (S ''EUR'')
      else if key = S ''usd'' then Some (S ''USD'')
      else if key = S ''gbp'' then Some (S ''GBP'')
      else None)"

definition map_currency :: "gostring \<Rightarrow> gostring \<Rightarrow> gostring" where
  \<comment> \<open>\<^verbatim>\<open>if mappedCurrency, ok := currencyMap[currencySymbol]; ok { currency = mappedCurrency }\<close>\<close>
  "map_currency currencySymbol currency =
     (case currencyMap currencySymbol of Some mappedCurrency \<Rightarrow> mappedCurrency | None \<Rightarrow> currency)"

definition line_currency :: "gostring \<Rightarrow> gostring \<Rightarrow> gostring" where
  \<comment> \<open>the currency a line shows by a symbol or code, \<open>other\<close> when it shows none\<close>
  "line_currency text other =
     (if contains text [dollar] then S ''USD''
      else if contains text [euro] \<or> contains (ToLower text) (S ''eur'') then S ''EUR''
      else if contains text [pound] \<or> contains (ToLower text) (S ''gbp'') then S ''GBP''
      else other)"

definition capture_of :: "bool \<Rightarrow> gostring list \<Rightarrow> gostring \<times> gostring" where
  \<comment> \<open>\<open>(amountStr, currencySymbol)\<close> of a match of an entry of \<open>patterns\<close>\<close>
  "capture_of after matches =
     (if after then (matches ! 1, matches ! 2) else (matches ! 2, matches ! 1))"

definition has_amount_keyword :: "gostring \<Rightarrow> bool" where
  "has_amount_keyword text =
     (let lowerText = ToLower text
      in contains lowerText (S ''total'') \<or> contains lowerText (S ''amount'') \<or>
         contains lowerText (S ''balance'') \<or> contains lowerText (S ''due'') \<or>
         contains lowerText (S ''payment''))"

fun keyword_tagged :: "(bool \<times> re) list \<Rightarrow> gostring \<Rightarrow> gostring \<Rightarrow> (rat \<times> gostring) + gostring" where
  \<comment> \<open>the loop over \<^verbatim>\<open>patterns\<close> on a keyword line: \<open>Inl\<close> is the function's return, \<open>Inr\<close>
      the variable \<^verbatim>\<open>currency\<close> when the loop ends\<close>
  "keyword_tagged [] text currency = Inr currency"
| "keyword_tagged (p # ps) text currency =
     (let matches = FindStringSubmatch (snd p) text
      in if length matches > 2 then
           (let amountStr = fst (capture_of (fst p) matches);
                currencySymbol = snd (capture_of (fst p) matches);
                currency = map_currency currencySymbol currency
            in case parseAmount amountStr of
                 Inr amount \<Rightarrow> Inl (amount, currency)
               | Inl err \<Rightarrow> keyword_tagged ps text currency)
         else keyword_tagged ps text currency)"

fun keyword_plain :: "re list \<Rightarrow> gostring \<Rightarrow> gostring \<Rightarrow> (rat \<times> gostring) option" where
  \<comment> \<open>the loop over \<^verbatim>\<open>patternsNoCurrency\<close> on a keyword line\<close>
  "keyword_plain [] text currency = None"
| "keyword_plain (p # ps) text currency =
     (let matches = FindStringSubmatch p text
      in if length matches > 1 then
           (case parseAmount (matches ! 1) of
              Inr amount \<Rightarrow> Some (amount, line_currency text currency)
            | Inl err \<Rightarrow> keyword_plain ps text currency)
         else keyword_plain ps text currency)"

fun keyword_lines :: "TextLine list \<Rightarrow> gostring \<Rightarrow> (rat \<times> gostring) + gostring" where
  \<comment> \<open>the first loop over the lines\<close>
  "keyword_lines [] currency = Inr currency"
| "keyword_lines (line # rest) currency =
     (if has_amount_keyword (Text line) then
        (case keyword_tagged patterns (Text line) currency of
           Inl r \<Rightarrow> Inl r
         | Inr currency \<Rightarrow>
             (case keyword_plain patternsNoCurrency (Text line) currency of
                Some r \<Rightarrow> Inl r
              | None \<Rightarrow> keyword_lines rest currency))
      else keyword_lines rest currency)"

text \<open>
  The variables the second loop changes: \<^verbatim>\<open>currency\<close>, \<^verbatim>\<open>largestAmount\<close> and
  \<^verbatim>\<open>largestAmountCurrency\<close>.
\<close>

record zone_state =
  z_currency :: gostring
  z_largestAmount :: rat
  z_largestAmountCurrency :: gostring

fun zone_tagged :: "(bool \<times> re) list \<Rightarrow> gostring \<Rightarrow> zone_state \<Rightarrow> zone_state" where
  \<comment> \<open>the loop over \<^verbatim>\<open>patterns\<close> on a line of the bottom zone\<close>
  "zone_tagged [] text st = st"
| "zone_tagged (p # ps) text st =
     (let matches = FindStringSubmatch (snd p) text
      in if length matches > 2 then
           (let amountStr = fst (capture_of (fst p) matches);
                currencySymbol = snd (capture_of (fst p) matches);
                st = st\<lparr>z_currency := map_currency currencySymbol (z_currency st)\<rparr>
            in case parseAmount amountStr of
                 Inr amount \<Rightarrow>
                   if amount > z_largestAmount st
                   then zone_tagged ps text
                          (st\<lparr>z_largestAmount := amount, z_largestAmountCurrency := z_currency st\<rparr>)
                   else zone_tagged ps text st
               | Inl err \<Rightarrow> zone_tagged ps text st)
         else zone_tagged ps text st)"

fun zone_plain :: "re list \<Rightarrow> gostring \<Rightarrow> zone_state \<Rightarrow> zone_state" where
  \<comment> \<open>the loop over \<^verbatim>\<open>patternsNoCurrency\<close> on a line of the bottom zone\<close>
  "zone_plain [] text st = st"
| "zone_plain (p # ps) text st =
     (let matches = FindStringSubmatch p text
      in if length matches > 1 then
           (case parseAmount (matches ! 1) of
              Inr amount \<Rightarrow>
                if amount > z_largestAmount st
                then zone_plain ps text
                       (st\<lparr>z_largestAmount := amount,
                           z_largestAmountCurrency := line_currency text (z_currency st)\<rparr>)
                else zone_plain ps text st
            | Inl err \<Rightarrow> zone_plain ps text st)
         else zone_plain ps text st)"

fun zone_lines :: "int \<Rightarrow> TextLine list \<Rightarrow> zone_state \<Rightarrow> zone_state" where
  \<comment> \<open>the second loop over the lines\<close>
  "zone_lines bottomThreshold [] st = st"
| "zone_lines bottomThreshold (line # rest) st =
     (if Y line > bottomThreshold
      then zone_lines bottomThreshold rest
             (zone_plain patternsNoCurrency (Text line) (zone_tagged patterns (Text line) st))
      else zone_lines bottomThreshold rest st)"

definition decimal_capture :: "gostring list \<Rightarrow> gostring \<times> gostring" where
  \<comment> \<open>\<open>(amountStr, currencySymbol)\<close> of a match of \<open>decimal_pattern\<close>\<close>
  "decimal_capture match =
     (if length match > 3 \<and> match ! 3 \<noteq> [] then (match ! 2, match ! 3)
      else if length match > 2 \<and> match ! 1 \<noteq> [] then (match ! 2, match ! 1)
      else if length match > 2 then (match ! 2, [])
      else if length match > 1 then (match ! 1, [])
      else ([], []))"

fun decimal_matches ::
  "gostring list list \<Rightarrow> gostring \<Rightarrow> gostring \<Rightarrow> rat \<times> gostring \<Rightarrow> rat \<times> gostring" where
  \<comment> \<open>the loop over the matches of a line in the fallback; the state is
      \<open>(largestDecimalNumber, largestDecimalCurrency)\<close>\<close>
  "decimal_matches [] text currency st = st"
| "decimal_matches (match # rest) text currency st =
     (let amountStr = fst (decimal_capture match);
          currencySymbol = snd (decimal_capture match);
          matchCurrency = (if currencySymbol \<noteq> [] then map_currency currencySymbol currency
                           else line_currency text currency)
      in case parseAmount amountStr of
           Inr amount \<Rightarrow>
             if amount > fst st then decimal_matches rest text currency (amount, matchCurrency)
             else decimal_matches rest text currency st
         | Inl err \<Rightarrow> decimal_matches rest text currency st)"

fun decimal_lines :: "TextLine list \<Rightarrow> gostring \<Rightarrow> rat \<times> gostring \<Rightarrow> rat \<times> gostring" where
  \<comment> \<open>the third loop over the lines\<close>
  "decimal_lines [] currency st = st"
| "decimal_lines (line # rest) currency st =
     decimal_lines rest currency
       (decimal_matches (FindAllStringSubmatch decimal_pattern (Text line)) (Text line) currency st)"

definition extractAmountFromPosition :: "gostring list \<Rightarrow> TextLine list \<Rightarrow> rat \<times> gostring" where
  "extractAmountFromPosition order textLines =
     (let documentCurrency = detectDocumentCurrency order textLines;
          currency0 = (if documentCurrency \<noteq> [] then documentCurrency else S ''EUR'');
          maxY = max_Y textLines
      in case keyword_lines textLines currency0 of
           Inl r \<Rightarrow> r
         | Inr currency1 \<Rightarrow>
             (let bottomThreshold = go_div (go_mul maxY 7) 10;
                  st = zone_lines bottomThreshold textLines
                         \<lparr>z_currency = currency1, z_largestAmount = 0,
                          z_largestAmountCurrency = []\<rparr>
              in if z_largestAmount st > 0 then (z_largestAmount st, z_largestAmountCurrency st)
                 else (let d = decimal_lines textLines (z_currency st) (0, [])
                       in if fst d > 0 then d else (0, z_currency st))))"

section \<open>The invoice number resolver\<close>

definition alnum_hyphen :: "(rune \<times> rune) list" where
  \<comment> \<open>the ranges of \<^verbatim>\<open>[A-Za-z0-9-]\<close>\<close>
  "alnum_hyphen = [(65, 90), (97, 122), (48, 57), (45, 45)]"

definition number_capture :: re where
  \<comment> \<open>\<^verbatim>\<open>([A-Za-z0-9-]+)\<close> under \<^verbatim>\<open>(?i)\<close>\<close>
  "number_capture = Grp 1 (plus (icls alnum_hyphen))"

definition punct :: re where
  \<comment> \<open>\<^verbatim>\<open>[-#\s.:]\<close>\<close>
  "punct = Cls [(45, 45), (35, 35), (9, 10), (12, 13), (32, 32), (period, period), (58, 58)]"

definition no_dot :: "re list" where
  \<comment> \<open>\<^verbatim>\<open>no\.?\<close> under \<^verbatim>\<open>(?i)\<close>\<close>
  "no_dot = [ilit ''no'', opt (chr period)]"

definition number_patterns :: "re list" where
  \<comment> \<open>the thirteen entries of \<^verbatim>\<open>patterns\<close> in \<^verbatim>\<open>extractInvoiceNumberFromPosition\<close>\<close>
  "number_patterns =
     [seqs [ilit ''inv'', Star (icls [(111, 111), (105, 105), (99, 99), (101, 101)]),
            Star punct, number_capture],
      seqs [ilit ''invoice'', Star ws, ilit ''number'', Star punct, number_capture],
      seqs [ilit ''invoice'', Star ws, chr 35, Star ws, number_capture],
      seqs ([ilit ''invoice'', Star ws] @ no_dot @ [Star ws, number_capture]),
      seqs ([ilit ''inv'', Star ws] @ no_dot @ [Star ws, number_capture]),
      seqs [ilit ''order'', Star ws, ilit ''number'', Star punct, number_capture],
      seqs [ilit ''order'', Star ws, chr 35, Star ws, number_capture],
      seqs ([ilit ''order'', Star ws] @ no_dot @ [Star ws, number_capture]),
      seqs [ilit ''reference'', Star ws, ilit ''number'', Star punct, number_capture],
      seqs [ilit ''reference'', Star ws, chr 35, Star ws, number_capture],
      seqs ([ilit ''reference'', Star ws] @ no_dot @ [Star ws, number_capture]),
      seqs ([ilit ''ref'', Star ws] @ no_dot @ [Star ws, number_capture]),
      seqs [chr 35, Star ws, number_capture]]"

definition run_pattern :: re where
  \<comment> \<open>\<^verbatim>\<open>[A-Za-z0-9][-A-Za-z0-9]{2,}\<close>\<close>
  "run_pattern = seqs [Cls [(65, 90), (97, 122), (48, 57)], rep_min 2 (Cls alnum_hyphen)]"

fun try_number_patterns :: "re list \<Rightarrow> gostring \<Rightarrow> gostring option" where
  \<comment> \<open>the loop over \<^verbatim>\<open>patterns\<close> on one line, the same in the four tiers: \<open>Some\<close> is the
      function's return\<close>
  "try_number_patterns [] text = None"
| "try_number_patterns (pattern # ps) text =
     (let matches = FindStringSubmatch pattern text
      in if length matches > 1 then
           (let result = TrimSpace (matches ! 1)
            in if golen result > 1 then Some result else try_number_patterns ps text)
         else try_number_patterns ps text)"

fun first_run :: "gostring list \<Rightarrow> gostring option" where
  \<comment> \<open>the loop over the alphanumeric runs of a line\<close>
  "first_run [] = None"
| "first_run (match # rest) =
     (let lowerMatch = ToLower match
      in if lowerMatch \<noteq> S ''invoice'' \<and> lowerMatch \<noteq> S ''number'' \<and> lowerMatch \<noteq> S ''inv''
            \<and> golen match > 2
         then Some match else first_run rest)"

fun top_right_lines :: "int \<Rightarrow> int \<Rightarrow> TextLine list \<Rightarrow> gostring option" where
  \<comment> \<open>the first loop over the lines\<close>
  "top_right_lines topThreshold rightHalfThreshold [] = None"
| "top_right_lines topThreshold rightHalfThreshold (line # rest) =
     (if Y line < topThreshold \<and> X line > rightHalfThreshold then
        (let lowerText = ToLower (Text line)
         in if contains lowerText (S ''invoice'') \<or> contains lowerText (S ''inv'') \<or>
               contains lowerText (S ''number'') \<or> contains lowerText (S ''#'') then
              (case try_number_patterns number_patterns (Text line) of
                 Some result \<Rightarrow> Some result
               | None \<Rightarrow>
                   (case first_run (FindAllString run_pattern (Text line)) of
                      Some match \<Rightarrow> Some match
                    | None \<Rightarrow> top_right_lines topThreshold rightHalfThreshold rest))
            else top_right_lines topThreshold rightHalfThreshold rest)
      else top_right_lines topThreshold rightHalfThreshold rest)"

fun number_keyword_lines :: "TextLine list \<Rightarrow> gostring option" where
  \<comment> \<open>the second loop over the lines\<close>
  "number_keyword_lines [] = None"
| "number_keyword_lines (line # rest) =
     (let lowerText = ToLower (Text line)
      in if contains lowerText (S ''invoice'') \<or> contains lowerText (S ''inv'') \<or>
            contains lowerText (S ''number'') \<or> contains lowerText (S ''order'') \<or>
            contains lowerText (S ''reference'') then
           (case try_number_patterns number_patterns (Text line) of
              Some result \<Rightarrow> Some result
            | None \<Rightarrow> number_keyword_lines rest)
         else number_keyword_lines rest)"

fun top_half_lines :: "int \<Rightarrow> TextLine list \<Rightarrow> gostring option" where
  \<comment> \<open>the third loop over the lines\<close>
  "top_half_lines topHalfThreshold [] = None"
| "top_half_lines topHalfThreshold (line # rest) =
     (if Y line < topHalfThreshold then
        (case try_number_patterns number_patterns (Text line) of
           Some result \<Rightarrow> Some result
         | None \<Rightarrow> top_half_lines topHalfThreshold rest)
      else top_half_lines topHalfThreshold rest)"

fun all_lines :: "TextLine list \<Rightarrow> gostring option" where
  \<comment> \<open>the fourth loop over the lines\<close>
  "all_lines [] = None"
| "all_lines (line # rest) =
     (case try_number_patterns number_patterns (Text line) of
        Some result \<Rightarrow> Some result
      | None \<Rightarrow> all_lines rest)"

definition extractInvoiceNumberFromPosition :: "TextLine list \<Rightarrow> gostring" where
  "extractInvoiceNumberFromPosition textLines =
     (let maxX = max_X textLines;
          maxY = max_Y textLines;
          topThreshold = go_div (go_mul maxY 3) 10;
          rightHalfThreshold = go_div maxX 2
      in case top_right_lines topThreshold rightHalfThreshold textLines of
           Some r \<Rightarrow> r
         | None \<Rightarrow>
             (case number_keyword_lines textLines of
                Some r \<Rightarrow> r
              | None \<Rightarrow>
                  (let topHalfThreshold = go_div maxY 2
                   in case top_half_lines topHalfThreshold textLines of
                        Some r \<Rightarrow> r
                      | None \<Rightarrow>
                          (case all_lines textLines of
                             Some r \<Rightarrow> r
                           | None \<Rightarrow> S ''UNKNOWN''))))"

section \<open>The date resolver\<close>

definition date_sep :: re where
  \<comment> \<open>\<^verbatim>\<open>[-/.]\<close>\<close>
  "date_sep = Cls [(45, 45), (47, 47), (period, period)]"

definition comma_ws :: re where
  \<comment> \<open>\<^verbatim>\<open>[,\s]\<close>\<close>
  "comma_ws = Cls [(comma, comma), (9, 10), (12, 13), (32, 32)]"

definition month_abbr :: re where
  \<comment> \<open>\<^verbatim>\<open>(jan|feb|mar|apr|may|jun|jul|aug|sep|oct|nov|dec)\<close> under \<^verbatim>\<open>(?i)\<close>\<close>
  "month_abbr =
     Grp 1 (alts (map ilit [''jan'', ''feb'', ''mar'', ''apr'', ''may'', ''jun'', ''jul'', ''aug'',
                            ''sep'', ''oct'', ''nov'', ''dec'']))"

definition month_name :: re where
  \<comment> \<open>\<^verbatim>\<open>(january|...|december)\<close> under \<^verbatim>\<open>(?i)\<close>\<close>
  "month_name =
     Grp 1 (alts (map ilit [''january'', ''february'', ''march'', ''april'', ''may'', ''june'',
                            ''july'', ''august'', ''september'', ''october'', ''november'',
                            ''december'']))"

definition date_patterns :: "re list" where
  \<comment> \<open>the six entries of \<^verbatim>\<open>patterns\<close> in \<^verbatim>\<open>extractDateFromPosition\<close>\<close>
  "date_patterns =
     [seqs [rep 1 2 digit, date_sep, rep 1 2 digit, date_sep, rep 2 4 digit],
      seqs [rep 4 4 digit, date_sep, rep 1 2 digit, date_sep, rep 1 2 digit],
      seqs [month_abbr, Star (icls [(97, 122)]), opt (chr period), plus ws, rep 1 2 digit,
            plus comma_ws, rep 2 4 digit],
      seqs [month_name, plus ws, rep 1 2 digit, plus comma_ws, rep 2 4 digit],
      seqs [rep 1 2 digit, plus ws, month_abbr, Star (icls [(97, 122)]), opt (chr period),
            plus ws, rep 2 4 digit],
      seqs [rep 1 2 digit, plus ws, month_name, plus ws, rep 2 4 digit]]"

definition dateKeywords :: "gostring list" where
  "dateKeywords = map S [''date'', ''issued'', ''invoice date'', ''order date'', ''billing date'']"

fun try_date_patterns :: "re list \<Rightarrow> gostring \<Rightarrow> gostring option" where
  \<comment> \<open>the loop over \<^verbatim>\<open>patterns\<close> on one line, the same in the three tiers\<close>
  "try_date_patterns [] text = None"
| "try_date_patterns (pattern # ps) text =
     (let match = FindString pattern text
      in if match \<noteq> [] then Some match else try_date_patterns ps text)"

fun date_keyword_lines :: "TextLine list \<Rightarrow> gostring option" where
  "date_keyword_lines [] = None"
| "date_keyword_lines (line # rest) =
     (let lowerText = ToLower (Text line);
          containsDateKeyword = list_ex (\<lambda>keyword. contains lowerText keyword) dateKeywords
      in if containsDateKeyword then
           (case try_date_patterns date_patterns (Text line) of
              Some match \<Rightarrow> Some match
            | None \<Rightarrow> date_keyword_lines rest)
         else date_keyword_lines rest)"

fun date_top_half_lines :: "int \<Rightarrow> TextLine list \<Rightarrow> gostring option" where
  "date_top_half_lines topHalfThreshold [] = None"
| "date_top_half_lines topHalfThreshold (line # rest) =
     (if Y line < topHalfThreshold then
        (case try_date_patterns date_patterns (Text line) of
           Some match \<Rightarrow> Some match
         | None \<Rightarrow> date_top_half_lines topHalfThreshold rest)
      else date_top_half_lines topHalfThreshold rest)"

fun date_all_lines :: "TextLine list \<Rightarrow> gostring option" where
  "date_all_lines [] = None"
| "date_all_lines (line # rest) =
     (case try_date_patterns date_patterns (Text line) of
        Some match \<Rightarrow> Some match
      | None \<Rightarrow> date_all_lines rest)"

definition extractDateFromPosition :: "TextLine list \<Rightarrow> gostring" where
  "extractDateFromPosition textLines =
     (case date_keyword_lines textLines of
        Some r \<Rightarrow> r
      | None \<Rightarrow>
          (let maxY = max_Y textLines;
               topHalfThreshold = go_div maxY 2
           in case date_top_half_lines topHalfThreshold textLines of
                Some r \<Rightarrow> r
              | None \<Rightarrow>
                  (case date_all_lines textLines of
                     Some r \<Rightarrow> r
                   | None \<Rightarrow> S ''UNKNOWN'')))"

section \<open>The vendor name resolver\<close>

fun split_on :: "rune \<Rightarrow> gostring \<Rightarrow> gostring list" where
  \<comment> \<open>\<^verbatim>\<open>strings.Split(s, sep)\<close> for a one-character \<^verbatim>\<open>sep\<close>\<close>
  "split_on c [] = [[]]"
| "split_on c (x # xs) =
     (if x = c then [] # split_on c xs
      else (case split_on c xs of [] \<Rightarrow> [[x]] | p # ps \<Rightarrow> (x # p) # ps))"

definition TrimPrefix :: "gostring \<Rightarrow> gostring \<Rightarrow> gostring" where
  "TrimPrefix s prefix = (if hasPrefix s prefix then drop (length prefix) s else s)"

definition TrimSuffix :: "gostring \<Rightarrow> gostring \<Rightarrow> gostring" where
  "TrimSuffix s suffix =
     (if hasPrefix (rev s) (rev suffix) then take (length s - length suffix) s else s)"

fun fields_from :: "gostring \<Rightarrow> gostring \<Rightarrow> gostring list" where
  \<comment> \<open>\<open>word\<close> is the field being read, in reverse\<close>
  "fields_from word [] = (if word = [] then [] else [rev word])"
| "fields_from word (x # xs) =
     (if is_space x then (if word = [] then fields_from [] xs else rev word # fields_from [] xs)
      else fields_from (x # word) xs)"

definition Fields :: "gostring \<Rightarrow> gostring list" where
  \<comment> \<open>\<^verbatim>\<open>strings.Fields(s)\<close>\<close>
  "Fields s = fields_from [] s"

fun Join :: "gostring list \<Rightarrow> gostring \<Rightarrow> gostring" where
  \<comment> \<open>\<^verbatim>\<open>strings.Join(elems, sep)\<close>\<close>
  "Join [] glue = []"
| "Join [w] glue = w"
| "Join (w # v # rest) glue = w @ glue @ Join (v # rest) glue"

definition upper_rune :: "rune \<Rightarrow> rune" where
  \<comment> \<open>\<^verbatim>\<open>unicode.ToUpper\<close> on ASCII; the program capitalises ASCII words only\<close>
  "upper_rune c = (if 97 \<le> c \<and> c \<le> 122 then c - 32 else c)"

definition is_lower_alnum :: "rune \<Rightarrow> bool" where
  \<comment> \<open>\<^verbatim>\<open>[a-z0-9]\<close>\<close>
  "is_lower_alnum c = ((97 \<le> c \<and> c \<le> 122) \<or> (48 \<le> c \<and> c \<le> 57))"

definition is_alnum :: "rune \<Rightarrow> bool" where
  \<comment> \<open>\<^verbatim>\<open>[a-zA-Z0-9]\<close>\<close>
  "is_alnum c = ((97 \<le> c \<and> c \<le> 122) \<or> (65 \<le> c \<and> c \<le> 90) \<or> (48 \<le> c \<and> c \<le> 57))"

definition cleanTextForComparison :: "gostring \<Rightarrow> gostring" where
  "cleanTextForComparison text =
     (let text = ToLower text;
          suffixes = map S ['' inc'', '' llc'', '' ltd'', '' limited'', '' corp'',
                            '' corporation'', '' co'', '' company''];
          text = foldl TrimSuffix text suffixes
      in filter is_lower_alnum text)"

fun remove_first_prefix :: "gostring list \<Rightarrow> gostring \<Rightarrow> gostring" where
  \<comment> \<open>the loop over \<^verbatim>\<open>prefixes\<close>, left at the first prefix found\<close>
  "remove_first_prefix [] domain = domain"
| "remove_first_prefix (prefix # ps) domain =
     (if hasPrefix domain prefix then TrimPrefix domain prefix
      else remove_first_prefix ps domain)"

fun split_camel :: "gostring \<Rightarrow> gostring" where
  \<comment> \<open>\<^verbatim>\<open>ReplaceAllString\<close> of \<^verbatim>\<open>([a-z])([A-Z])\<close> by \<^verbatim>\<open>"$1 $2"\<close>\<close>
  "split_camel (a # b # rest) =
     (if 97 \<le> a \<and> a \<le> 122 \<and> 65 \<le> b \<and> b \<le> 90 then a # 32 # b # split_camel rest
      else a # split_camel (b # rest))"
| "split_camel s = s"

definition capitalize :: "gostring \<Rightarrow> gostring" where
  \<comment> \<open>\<^verbatim>\<open>strings.ToUpper(word[:1]) + strings.ToLower(word[1:])\<close> for a non-empty ASCII word\<close>
  "capitalize word = map upper_rune (take 1 word) @ ToLower (drop 1 word)"

definition convertDomainToReadableName :: "gostring \<Rightarrow> gostring" where
  "convertDomainToReadableName domain =
     (let prefixes = map S [''www'', ''mail'', ''info'', ''support'', ''contact'', ''sales''];
          domain = remove_first_prefix prefixes domain;
          domain = map (\<lambda>c. if is_alnum c then c else 32) domain;
          domain = split_camel domain;
          domain = TrimSpace domain;
          words = Fields domain
      in Join (map capitalize words) [32])"

definition lower_alnum :: "(rune \<times> rune) list" where
  \<comment> \<open>the ranges of \<^verbatim>\<open>[a-z0-9]\<close>\<close>
  "lower_alnum = [(97, 122), (48, 57)]"

definition domain_label :: "re list" where
  \<comment> \<open>\<^verbatim>\<open>[a-z0-9][-a-z0-9]*\<close> under \<^verbatim>\<open>(?i)\<close>\<close>
  "domain_label = [icls lower_alnum, Star (icls ((45, 45) # lower_alnum))]"

definition domain_tail :: "re list" where
  \<comment> \<open>\<^verbatim>\<open>([a-z0-9][-a-z0-9]*\.)+[a-z0-9][-a-z0-9]*\<close> under \<^verbatim>\<open>(?i)\<close>\<close>
  "domain_tail = [plus (Grp 1 (seqs (domain_label @ [chr period])))] @ domain_label"

definition websiteRegex :: re where
  "websiteRegex = seqs ([ilit ''www'', chr period] @ domain_tail)"

definition emailRegex :: re where
  "emailRegex = seqs ([chr 64] @ domain_tail)"

definition domainRegex :: re where
  \<comment> \<open>\<^verbatim>\<open>(?i)https?://\<close>, then the domain\<close>
  "domainRegex = seqs ([ilit ''http'', opt (icls [(115, 115)]), lit ''://''] @ domain_tail)"

definition addressRegex :: re where
  "addressRegex =
     Grp 1 (seqs [plus digit, plus ws,
                  plus (icls (lower_alnum @ [(9, 10), (12, 13), (32, 32), (comma, comma)])),
                  alts (map ilit [''street'', ''st'', ''avenue'', ''ave'', ''road'', ''rd'',
                                  ''boulevard'', ''blvd'', ''lane'', ''ln'', ''drive'', ''dr'',
                                  ''way'', ''place'', ''pl'', ''court'', ''ct''])])"

definition main_part :: "gostring \<Rightarrow> gostring" where
  \<comment> \<open>\<^verbatim>\<open>parts := strings.Split(domain, "."); parts[0]\<close>\<close>
  "main_part domain = hd (split_on period domain)"

definition line_websites :: "gostring \<Rightarrow> gostring list" where
  \<comment> \<open>the first inner loop of the loop over the lines: the domains after \<^verbatim>\<open>www.\<close>\<close>
  "line_websites text =
     map (\<lambda>match. TrimPrefix (match ! 0) (S ''www.''))
       (filter (\<lambda>match. length match > 0) (FindAllStringSubmatch websiteRegex text))"

definition line_emails :: "gostring \<Rightarrow> gostring list" where
  "line_emails text =
     map (\<lambda>match. match ! 1)
       (filter (\<lambda>match. length match > 1) (FindAllStringSubmatch emailRegex text))"

definition line_urls :: "gostring \<Rightarrow> gostring list" where
  "line_urls text =
     map (\<lambda>match. match ! 1)
       (filter (\<lambda>match. length match > 1) (FindAllStringSubmatch domainRegex text))"

definition has_header_word :: "gostring list \<Rightarrow> gostring \<Rightarrow> bool" where
  \<comment> \<open>the lowered text contains one of the words\<close>
  "has_header_word words text = list_ex (\<lambda>w. contains (ToLower text) w) words"

fun match_logo :: "gostring \<Rightarrow> gostring list \<Rightarrow> gostring option" where
  \<comment> \<open>the loop over \<^verbatim>\<open>logoTextCandidates\<close> for one cleaned domain part\<close>
  "match_logo cleanDomainPart [] = None"
| "match_logo cleanDomainPart (logoText # rest) =
     (let cleanLogoText = cleanTextForComparison logoText
      in if contains cleanLogoText cleanDomainPart then Some logoText
         else if contains cleanDomainPart cleanLogoText \<and> golen logoText > 3 then Some logoText
         else match_logo cleanDomainPart rest)"

fun cross_reference :: "gostring list \<Rightarrow> gostring list \<Rightarrow> gostring option" where
  \<comment> \<open>the loop over \<^verbatim>\<open>domainMainParts\<close>\<close>
  "cross_reference [] logoTextCandidates = None"
| "cross_reference (domainPart # rest) logoTextCandidates =
     (case match_logo (cleanTextForComparison domainPart) logoTextCandidates of
        Some logoText \<Rightarrow> Some logoText
      | None \<Rightarrow> cross_reference rest logoTextCandidates)"

definition company_before_address :: "gostring list \<Rightarrow> gostring \<Rightarrow> gostring option" where
  \<comment> \<open>what the source does with the line before the address line\<close>
  "company_before_address domainMainParts prevText =
     (let potentialCompanyName = TrimSpace prevText;
          cleanCompanyName = cleanTextForComparison potentialCompanyName
      in if list_ex (\<lambda>domainPart.
               contains cleanCompanyName (cleanTextForComparison domainPart) \<or>
               contains (cleanTextForComparison domainPart) cleanCompanyName) domainMainParts
         then Some potentialCompanyName
         else if golen potentialCompanyName > 3 \<and>
                 \<not> contains (ToLower potentialCompanyName) (S ''invoice'') \<and>
                 \<not> contains (ToLower potentialCompanyName) (S ''bill'')
         then Some potentialCompanyName
         else None)"

fun address_loop :: "gostring list \<Rightarrow> gostring \<Rightarrow> TextLine \<Rightarrow> TextLine list \<Rightarrow> gostring option" where
  \<comment> \<open>the loop over \<^verbatim>\<open>topLeftLines\<close> from \<open>j = 1\<close>, \<open>prev\<close> being line \<open>j - 1\<close>; it is left
      at the first line whose text is the address line\<close>
  "address_loop domainMainParts addressLine prev [] = None"
| "address_loop domainMainParts addressLine prev (line # rest) =
     (if Text line = addressLine then company_before_address domainMainParts (Text prev)
      else address_loop domainMainParts addressLine line rest)"

fun first_multiword :: "gostring list \<Rightarrow> gostring option" where
  "first_multiword [] = None"
| "first_multiword (name # rest) =
     (if length (Fields name) > 1 then Some name else first_multiword rest)"

text \<open>
  \<^verbatim>\<open>sort.Slice\<close> reorders a slice so that no element is \<^verbatim>\<open>less\<close> than one before it; it is
  not stable, so the order of elements that compare equal is the library's choice. The
  model takes the library's sort as an argument of the function that calls it, \<open>sortLines\<close>
  for the calls that order lines by \<^verbatim>\<open>Y\<close> and \<open>sortNames\<close> for those that order names by
  decreasing length. \<open>sorts_by key srt\<close> is what the library guarantees of it: the result is
  a rearrangement of the slice, in nondecreasing order of the key.
\<close>

definition sorts_by :: "('a \<Rightarrow> int) \<Rightarrow> ('a list \<Rightarrow> 'a list) \<Rightarrow> bool" where
  "sorts_by key srt = (\<forall>xs. mset (srt xs) = mset xs \<and> sorted (map key (srt xs)))"

abbreviation by_length :: "gostring \<Rightarrow> int" where
  \<comment> \<open>the key of \<^verbatim>\<open>len(names[i]) > len(names[j])\<close>: longest first\<close>
  "by_length name \<equiv> - int (golen name)"

subsection \<open>The resolver of \<^verbatim>\<open>main.go\<close>\<close>

definition longest_step :: "gostring \<times> nat \<Rightarrow> TextLine \<Rightarrow> gostring \<times> nat" where
  \<comment> \<open>the body of the loop that looks for the longest line: the state is
      \<^verbatim>\<open>longestValidLine\<close> and \<^verbatim>\<open>longestLength\<close>\<close>
  "longest_step st line =
     (let text = TrimSpace (Text line);
          lowerText = ToLower text
      in if golen text > 3 \<and>
            \<not> contains lowerText (S ''invoice'') \<and>
            \<not> contains lowerText (S ''bill'') \<and>
            \<not> contains lowerText (S ''receipt'') \<and>
            \<not> contains lowerText (S ''statement'') \<and>
            \<not> contains lowerText (S ''account'')
         then (if golen text > snd st then (text, golen text) else st)
         else st)"

definition extractVendorNameFromPosition ::
  "(TextLine list \<Rightarrow> TextLine list) \<Rightarrow> TextLine list \<Rightarrow> gostring" where
  \<comment> \<open>\<^verbatim>\<open>main.go\<close>, line 244\<close>
  "extractVendorNameFromPosition sortLines textLines =
     (if length textLines = 0 then S ''UNKNOWN''
      else
       let maxY = max_Y textLines;
           topThreshold = go_div (go_mul maxY 3) 10;
           topLines = sortLines (filter (\<lambda>line. Y line < topThreshold) textLines);
           longestValidLine = fst (foldl longest_step ([], 0) topLines)
       in if longestValidLine \<noteq> [] then longestValidLine
          else (case List.find (\<lambda>text. golen text > 3)
                       (map (\<lambda>line. TrimSpace (Text line)) topLines) of
                  Some r \<Rightarrow> r
                | None \<Rightarrow> S ''UNKNOWN''))"

subsection \<open>The resolver of the later revisions\<close>

text \<open>
  The revisions \<^verbatim>\<open>part_002\<close> and \<^verbatim>\<open>part_003\<close> replace the resolver by one that also reads the
  domains of websites and e-mail addresses. It ranges over the map \<^verbatim>\<open>uniqueDomains\<close>:
  \<open>visit\<close> stands for the order in which this run's loop visits its keys, given the distinct
  domains.
\<close>

definition extractVendorNameFromPosition_part_002 ::
  "(TextLine list \<Rightarrow> TextLine list) \<Rightarrow> (gostring list \<Rightarrow> gostring list) \<Rightarrow>
   (gostring list \<Rightarrow> gostring list) \<Rightarrow> TextLine list \<Rightarrow> gostring" where
  \<comment> \<open>\<^verbatim>\<open>part_002\<close>, line 237\<close>
  "extractVendorNameFromPosition_part_002 sortLines sortNames visit textLines =
     (if length textLines = 0 then S ''UNKNOWN''
      else
       let maxY = max_Y textLines;
           maxX = max_X textLines;
           topThreshold = go_div (go_mul maxY 3) 10;
           leftHalfThreshold = go_div maxX 2;
           websiteDomains =
             concat (map (\<lambda>line. line_websites (Text line) @ line_urls (Text line)) textLines);
           emailDomains = concat (map (\<lambda>line. line_emails (Text line)) textLines);
           domainMainParts =
             concat (map (\<lambda>line. map main_part
                            (line_websites (Text line) @ line_emails (Text line)
                             @ line_urls (Text line))) textLines);
           topLeftLines =
             sortLines (filter (\<lambda>line. Y line < topThreshold \<and> X line < leftHalfThreshold)
                          textLines);
           topLines = sortLines (filter (\<lambda>line. Y line < topThreshold) textLines);
           logoTextCandidates =
             filter (\<lambda>text. golen text > 2) (map (\<lambda>line. TrimSpace (Text line)) (take 3 topLeftLines));
           addressLines =
             map Text (filter (\<lambda>line. MatchString addressRegex (Text line)) topLeftLines);
           byDomain =
             (if length domainMainParts > 0 \<and> length logoTextCandidates > 0
              then cross_reference domainMainParts logoTextCandidates else None);
           byAddress =
             (if length addressLines > 0 \<and> length topLeftLines > 1
              then address_loop domainMainParts (hd addressLines) (hd topLeftLines) (tl topLeftLines)
              else None);
           byLogo =
             List.find (\<lambda>logoText. \<not> has_header_word
                          (map S [''invoice'', ''bill'', ''receipt'', ''statement'']) logoText)
               logoTextCandidates;
           domainBasedNames =
             (if length websiteDomains > 0 \<or> length emailDomains > 0
              then map (\<lambda>domain. convertDomainToReadableName (main_part domain))
                     (visit (remdups (websiteDomains @ emailDomains)))
              else []);
           potentialVendorNames =
             filter (\<lambda>text. golen text > 3 \<and>
                       \<not> has_header_word (map S [''invoice'', ''bill'', ''receipt'', ''statement'',
                                                  ''account'', ''date'', ''number'']) text)
               (map (\<lambda>line. TrimSpace (Text line)) topLeftLines);
           byLength = sortNames potentialVendorNames;
           firstTop = List.find (\<lambda>text. golen text > 3) (map (\<lambda>line. TrimSpace (Text line)) topLines)
       in case byDomain of Some r \<Rightarrow> r | None \<Rightarrow>
          (case byAddress of Some r \<Rightarrow> r | None \<Rightarrow>
          (case byLogo of Some r \<Rightarrow> r | None \<Rightarrow>
          (if length domainBasedNames > 0
           then hd (sortNames domainBasedNames)
           else if length potentialVendorNames > 0
           then (case first_multiword byLength of Some r \<Rightarrow> r | None \<Rightarrow> hd byLength)
           else (case firstTop of Some r \<Rightarrow> r | None \<Rightarrow> S ''UNKNOWN'')))))"

section \<open>The field aggregator\<close>

record Invoice =
  InvoiceNumber :: gostring
  Date :: gostring
  TotalAmount :: rat
  Currency :: gostring
  VendorName :: gostring

text \<open>
  \<^verbatim>\<open>parseInvoiceTextWithPosition\<close> sorts the lines by \<^verbatim>\<open>Y\<close> and calls the four resolvers. Its
  text is the same in \<^verbatim>\<open>main.go\<close> (line 219) and in the later revisions (\<^verbatim>\<open>part_002\<close>, line
  212); the vendor resolver it calls is the one of its own file. Besides the library's
  sort, its arguments are the choices the Go runtime makes during the call: \<open>order\<close>, the
  order of the loop over \<^verbatim>\<open>currencyCount\<close>, and in the later revisions \<open>visit\<close>, that of the
  loop over \<^verbatim>\<open>uniqueDomains\<close>.
\<close>

definition parseInvoiceTextWithPosition ::
  "(TextLine list \<Rightarrow> TextLine list) \<Rightarrow> gostring list \<Rightarrow> TextLine list \<Rightarrow> Invoice" where
  "parseInvoiceTextWithPosition sortLines order textLines =
     (let textLines = sortLines textLines;
          vendorName = extractVendorNameFromPosition sortLines textLines;
          invoiceNumber = extractInvoiceNumberFromPosition textLines;
          date = extractDateFromPosition textLines;
          amount = extractAmountFromPosition order textLines
      in \<lparr>InvoiceNumber = invoiceNumber, Date = date, TotalAmount = fst amount,
          Currency = snd amount, VendorName = vendorName\<rparr>)"

definition parseInvoiceTextWithPosition_part_002 ::
  "(TextLine list \<Rightarrow> TextLine list) \<Rightarrow> (gostring list \<Rightarrow> gostring list) \<Rightarrow> gostring list \<Rightarrow>
   (gostring list \<Rightarrow> gostring list) \<Rightarrow> TextLine list \<Rightarrow> Invoice" where
  "parseInvoiceTextWithPosition_part_002 sortLines sortNames order visit textLines =
     (let textLines = sortLines textLines;
          vendorName = extractVendorNameFromPosition_part_002 sortLines sortNames visit textLines;
          invoiceNumber = extractInvoiceNumberFromPosition textLines;
          date = extractDateFromPosition textLines;
          amount = extractAmountFromPosition order textLines
      in \<lparr>InvoiceNumber = invoiceNumber, Date = date, TotalAmount = fst amount,
          Currency = snd amount, VendorName = vendorName\<rparr>)"

section \<open>The line normalizer\<close>

subsection \<open>\<^verbatim>\<open>strconv.Atoi\<close>\<close>

text \<open>
  \<^verbatim>\<open>strconv.Atoi\<close>, after the library's source, for a 64-bit \<^verbatim>\<open>int\<close>. A string of 1 to 18 bytes
  takes the fast path: a sign is taken off and the digits are summed up; any other byte is
  a syntax error. Every other string goes through \<^verbatim>\<open>ParseInt\<close> and \<^verbatim>\<open>ParseUint\<close> in base 10.
  \<^verbatim>\<open>ParseUint\<close> reads the bytes from the left and stops at the first byte that is no digit,
  with a syntax error, or at the first digit with which the number no longer fits 64 bits,
  with a range error, whichever comes first. The loops run over the code points here: a
  code point outside ASCII is a sequence of bytes of which none is a digit.
\<close>

fun atoi_digits :: "gostring \<Rightarrow> int \<Rightarrow> int option" where
  \<comment> \<open>the loop of the fast path; \<open>None\<close> is the return with a syntax error\<close>
  "atoi_digits [] n = Some n"
| "atoi_digits (ch # rest) n =
     (if is_digit ch then atoi_digits rest (n * 10 + int (ch - 48)) else None)"

definition atoi_fast :: "gostring \<Rightarrow> int \<times> num_error option" where
  "atoi_fast s0 =
     (let s = (if hd s0 = 45 \<or> hd s0 = 43 then tl s0 else s0)
      in if length s < 1 then (0, Some ErrSyntax)
         else (case atoi_digits s 0 of
                 None \<Rightarrow> (0, Some ErrSyntax)
               | Some n \<Rightarrow> (if hd s0 = 45 then - n else n, None)))"

definition maxUint64 :: nat where
  "maxUint64 = 2 ^ 64 - 1"

fun parse_uint_loop :: "gostring \<Rightarrow> nat \<Rightarrow> nat \<times> num_error option" where
  \<comment> \<open>the loop of \<^verbatim>\<open>ParseUint\<close> in base 10 with \<^verbatim>\<open>bitSize\<close> 64; \<open>n\<close> is a \<^verbatim>\<open>uint64\<close>\<close>
  "parse_uint_loop [] n = (n, None)"
| "parse_uint_loop (c # rest) n =
     (if \<not> is_digit c then (0, Some ErrSyntax)
      else if n \<ge> maxUint64 div 10 + 1 then (maxUint64, Some ErrRange)
      else let n10 = (n * 10) mod 2 ^ 64;
               n1 = (n10 + (c - 48)) mod 2 ^ 64
           in if n1 < n10 \<or> n1 > maxUint64 then (maxUint64, Some ErrRange)
              else parse_uint_loop rest n1)"

definition ParseUint :: "gostring \<Rightarrow> nat \<times> num_error option" where
  "ParseUint s = (if s = [] then (0, Some ErrSyntax) else parse_uint_loop s 0)"

definition ParseInt :: "gostring \<Rightarrow> int \<times> num_error option" where
  "ParseInt s0 =
     (if s0 = [] then (0, Some ErrSyntax)
      else
       let neg = (hd s0 = 45);
           s = (if hd s0 = 43 \<or> hd s0 = 45 then tl s0 else s0);
           un = fst (ParseUint s);
           err = snd (ParseUint s)
       in if err \<noteq> None \<and> err \<noteq> Some ErrRange then (0, err)
          else if \<not> neg \<and> un \<ge> 2 ^ 63 then (2 ^ 63 - 1, Some ErrRange)
          else if neg \<and> un > 2 ^ 63 then (- (2 ^ 63), Some ErrRange)
          else (if neg then - int un else int un, None))"

definition Atoi :: "gostring \<Rightarrow> int \<times> num_error option" where
  "Atoi s =
     (let sLen = golen s
      in if 0 < sLen \<and> sLen < 19 then atoi_fast s else ParseInt s)"

subsection \<open>The OCR result\<close>

text \<open>
  The types of the OCR library, with the fields the program reads. Each of them is a
  pointer, \<open>None\<close> being \<^verbatim>\<open>nil\<close>. The program dereferences \<^verbatim>\<open>Regions\<close>, \<^verbatim>\<open>Lines\<close>, \<^verbatim>\<open>Words\<close> and
  the \<^verbatim>\<open>Text\<close> of a word without a test, so that \<^verbatim>\<open>nil\<close> there is a panic of the run; it tests
  \<^verbatim>\<open>BoundingBox\<close> before it reads it.
\<close>

datatype panic = NilDereference

record OcrWord =
  WordText :: "gostring option"

record OcrLine =
  BoundingBox :: "gostring option"
  Words :: "OcrWord list option"

record OcrRegion =
  Lines :: "OcrLine list option"

record OcrResult =
  Regions :: "OcrRegion list option"

definition parse_box :: "gostring option \<Rightarrow> int list" where
  \<comment> \<open>the slice \<^verbatim>\<open>boundingBox\<close> after the parsing loop; the error of \<^verbatim>\<open>Atoi\<close> is dropped\<close>
  "parse_box box =
     (case box of
        None \<Rightarrow> []
      | Some boundingBoxStr \<Rightarrow> map (\<lambda>part. fst (Atoi part)) (split_on comma boundingBoxStr))"

fun write_words :: "OcrWord list \<Rightarrow> gostring \<Rightarrow> panic + gostring" where
  \<comment> \<open>the loop over the words of a line, which appends to \<^verbatim>\<open>lineText\<close>\<close>
  "write_words [] lineText = Inr lineText"
| "write_words (word # rest) lineText =
     (case WordText word of
        None \<Rightarrow> Inl NilDereference
      | Some t \<Rightarrow> write_words rest (lineText @ t @ [32]))"

definition normalize_line :: "OcrLine \<Rightarrow> TextLine list \<Rightarrow> panic + TextLine list" where
  \<comment> \<open>the body of the loop over the lines of a region: \<^verbatim>\<open>textLines\<close> after it\<close>
  "normalize_line line textLines =
     (let boundingBox = parse_box (BoundingBox line)
      in case Words line of
           None \<Rightarrow> Inl NilDereference
         | Some words \<Rightarrow>
             (case write_words words [] of
                Inl p \<Rightarrow> Inl p
              | Inr lineText \<Rightarrow>
                  if length boundingBox \<ge> 4
                  then Inr (textLines @
                         [\<lparr>Text = TrimSpace lineText, X = boundingBox ! 0, Y = boundingBox ! 1,
                           Width = boundingBox ! 2, Height = boundingBox ! 3\<rparr>])
                  else Inr textLines))"

fun normalize_lines :: "OcrLine list \<Rightarrow> TextLine list \<Rightarrow> panic + TextLine list" where
  \<comment> \<open>the loop over the lines of a region\<close>
  "normalize_lines [] textLines = Inr textLines"
| "normalize_lines (line # rest) textLines =
     (case normalize_line line textLines of
        Inl p \<Rightarrow> Inl p
      | Inr textLines' \<Rightarrow> normalize_lines rest textLines')"

fun normalize_regions :: "OcrRegion list \<Rightarrow> TextLine list \<Rightarrow> panic + TextLine list" where
  \<comment> \<open>the loop over the regions\<close>
  "normalize_regions [] textLines = Inr textLines"
| "normalize_regions (region # rest) textLines =
     (case Lines region of
        None \<Rightarrow> Inl NilDereference
      | Some lines \<Rightarrow>
          (case normalize_lines lines textLines of
             Inl p \<Rightarrow> Inl p
           | Inr textLines' \<Rightarrow> normalize_regions rest textLines'))"

definition extractTextFromOCRResult :: "OcrResult \<Rightarrow> panic + TextLine list" where
  "extractTextFromOCRResult result =
     (case Regions result of
        None \<Rightarrow> Inl NilDereference
      | Some regions \<Rightarrow> normalize_regions regions [])"

section \<open>Notions for the proofs about patterns\<close>

text \<open>
  \<open>stays_in C r\<close>: every character class of the pattern \<open>r\<close> lies within the ranges \<open>C\<close>, so
  \<open>r\<close> consumes characters of \<open>C\<close> only. \<open>groups_within i C r\<close>: every group numbered \<open>i\<close> in
  \<open>r\<close> stays in \<open>C\<close>. \<open>consumed\<close> relates the text before and after a match.
\<close>

definition ranges_within :: "(rune \<times> rune) list \<Rightarrow> (rune \<times> rune) list \<Rightarrow> bool" where
  "ranges_within rs C = list_all (\<lambda>r. list_ex (\<lambda>c. fst c \<le> fst r \<and> snd r \<le> snd c) C) rs"

primrec stays_in :: "(rune \<times> rune) list \<Rightarrow> re \<Rightarrow> bool" where
  "stays_in C (Cls rs) = ranges_within rs C"
| "stays_in C (NCls rs) = False"
| "stays_in C Eps = True"
| "stays_in C (Seq a b) = (stays_in C a \<and> stays_in C b)"
| "stays_in C (Alt a b) = (stays_in C a \<and> stays_in C b)"
| "stays_in C (Star a) = stays_in C a"
| "stays_in C (Grp j a) = stays_in C a"

primrec groups_within :: "nat \<Rightarrow> (rune \<times> rune) list \<Rightarrow> re \<Rightarrow> bool" where
  "groups_within i C (Cls rs) = True"
| "groups_within i C (NCls rs) = True"
| "groups_within i C Eps = True"
| "groups_within i C (Seq a b) = (groups_within i C a \<and> groups_within i C b)"
| "groups_within i C (Alt a b) = (groups_within i C a \<and> groups_within i C b)"
| "groups_within i C (Star a) = groups_within i C a"
| "groups_within i C (Grp j a) = ((if j = i then stays_in C a else True) \<and> groups_within i C a)"

definition cap_ok :: "nat \<Rightarrow> (rune \<times> rune) list \<Rightarrow> caps \<Rightarrow> bool" where
  "cap_ok i C c = (case c i of None \<Rightarrow> True | Some w \<Rightarrow> list_all (in_ranges C) w)"

definition consumed :: "nat \<Rightarrow> (rune \<times> rune) list \<Rightarrow> bool \<Rightarrow> gostring \<Rightarrow> caps \<Rightarrow> gostring \<times> caps \<Rightarrow> bool" where
  "consumed i C inside s c m =
     (\<exists>w. s = w @ fst m \<and> (cap_ok i C c \<longrightarrow> cap_ok i C (snd m)) \<and> (inside \<longrightarrow> list_all (in_ranges C) w))"

definition amount_chars :: "(rune \<times> rune) list" where
  \<comment> \<open>digits, comma and period: what \<open>amount_re\<close> consumes\<close>
  "amount_chars = [(48, 57), (comma, comma), (period, period)]"

definition number_chars :: "(rune \<times> rune) list" where
  \<comment> \<open>what the class \<^verbatim>\<open>[A-Za-z0-9-]\<close> accepts under \<^verbatim>\<open>(?i)\<close>\<close>
  "number_chars = fold_ranges alnum_hyphen"

definition number_rune :: "rune \<Rightarrow> bool" where
  \<comment> \<open>an ASCII letter or digit, a hyphen, U+017F (long s) or U+212A (Kelvin sign)\<close>
  "number_rune x = (is_alnum x \<or> x = 45 \<or> x = 383 \<or> x = 8490)"

section \<open>The candidates of the amount resolver\<close>













definition zone_of :: "gostring \<Rightarrow> rat \<times> gostring \<Rightarrow> zone_state" where
  \<comment> \<open>the state of the second loop, from the running currency and the best candidate\<close>
  "zone_of cur best =
     \<lparr>z_currency = cur, z_largestAmount = fst best, z_largestAmountCurrency = snd best\<rparr>"

section \<open>Notions for the claim about the line normalizer\<close>

text \<open>
  \<open>nil_free result\<close>: none of the pointers that the normalizer dereferences is \<^verbatim>\<open>nil\<close>, in any
  region, line or word of the result. \<open>ocr_lines\<close> lists the lines of all regions in order,
  and \<open>line_text\<close> is the text of a line: its words, each followed by a space, trimmed.
\<close>

definition line_ok :: "OcrLine \<Rightarrow> bool" where
  \<comment> \<open>neither \<^verbatim>\<open>Words\<close> nor the \<^verbatim>\<open>Text\<close> of a word is \<^verbatim>\<open>nil\<close>\<close>
  "line_ok line =
     (case Words line of
        None \<Rightarrow> False
      | Some words \<Rightarrow> list_all (\<lambda>word. WordText word \<noteq> None) words)"

definition region_ok :: "OcrRegion \<Rightarrow> bool" where
  "region_ok region =
     (case Lines region of None \<Rightarrow> False | Some lines \<Rightarrow> list_all line_ok lines)"

definition nil_free :: "OcrResult \<Rightarrow> bool" where
  "nil_free result =
     (case Regions result of None \<Rightarrow> False | Some regions \<Rightarrow> list_all region_ok regions)"

definition region_lines :: "OcrRegion \<Rightarrow> OcrLine list" where
  "region_lines region = (case Lines region of None \<Rightarrow> [] | Some lines \<Rightarrow> lines)"

definition ocr_lines :: "OcrResult \<Rightarrow> OcrLine list" where
  "ocr_lines result =
     (case Regions result of
        None \<Rightarrow> []
      | Some regions \<Rightarrow> concat (map region_lines regions))"

definition word_text :: "OcrWord \<Rightarrow> gostring" where
  "word_text word = (case WordText word of None \<Rightarrow> [] | Some t \<Rightarrow> t)"

definition line_text :: "OcrLine \<Rightarrow> gostring" where
  "line_text line =
     (case Words line of
        None \<Rightarrow> []
      | Some words \<Rightarrow> TrimSpace (concat (map (\<lambda>word. word_text word @ [32]) words)))"

text \<open>
  A decimal integer is an optional sign followed by one or more digits, and nothing else.
  \<open>decimal_value\<close> is the integer it denotes. \<open>leading_value\<close> is the number that the digits
  after the sign denote, up to the first character that is no digit.
\<close>

definition unsigned_part :: "gostring \<Rightarrow> gostring" where
  "unsigned_part s = (if s \<noteq> [] \<and> (hd s = 43 \<or> hd s = 45) then tl s else s)"

definition is_decimal :: "gostring \<Rightarrow> bool" where
  "is_decimal s = (unsigned_part s \<noteq> [] \<and> list_all is_digit (unsigned_part s))"

definition negative :: "gostring \<Rightarrow> bool" where
  "negative s = (s \<noteq> [] \<and> hd s = 45)"

definition decimal_value :: "gostring \<Rightarrow> int" where
  "decimal_value s =
     (if negative s then - int (digits_value (unsigned_part s))
      else int (digits_value (unsigned_part s)))"

definition leading_value :: "gostring \<Rightarrow> nat" where
  "leading_value s = digits_value (takeWhile is_digit (unsigned_part s))"

text \<open>
  What the normalizer makes of one line, when it does not panic: one \<open>TextLine\<close> if the line
  has a bounding box with at least four fragments between commas, none otherwise.
\<close>

definition materialize :: "OcrLine \<Rightarrow> TextLine list" where
  "materialize line =
     (case BoundingBox line of
        None \<Rightarrow> []
      | Some box \<Rightarrow>
          (case split_on comma box of
             x # y # w # h # rest \<Rightarrow>
               [\<lparr>Text = line_text line, X = fst (Atoi x), Y = fst (Atoi y),
                 Width = fst (Atoi w), Height = fst (Atoi h)\<rparr>]
           | _ \<Rightarrow> []))"

section \<open>Concrete documents\<close>

definition tie_doc :: "TextLine list" where
  \<comment> \<open>a line with a dollar sign and a line with a pound sign\<close>
  "tie_doc = [\<lparr>Text = [dollar], X = 0, Y = 0, Width = 0, Height = 0\<rparr>,
              \<lparr>Text = [pound], X = 0, Y = 10, Width = 0, Height = 0\<rparr>]"

definition box_line :: OcrLine where
  \<comment> \<open>a line whose box has four fragments: a letter, a number beyond the range of
      \<^verbatim>\<open>int\<close>, and two small numbers\<close>
  "box_line = \<lparr>BoundingBox = Some (S ''x,99999999999999999999,3,4''),
               Words = Some [\<lparr>WordText = Some (S ''Hello'')\<rparr>, \<lparr>WordText = Some (S ''World'')\<rparr>]\<rparr>"

definition box_result :: OcrResult where
  \<comment> \<open>one region with the line \<open>box_line\<close>\<close>
  "box_result = \<lparr>Regions = Some [\<lparr>Lines = Some [box_line]\<rparr>]\<rparr>"

definition mixed_result :: OcrResult where
  \<comment> \<open>two regions with three lines: \<open>box_line\<close>, a line whose box has three fragments and a
      line without box\<close>
  "mixed_result =
     \<lparr>Regions = Some
        [\<lparr>Lines = Some [box_line, \<lparr>BoundingBox = Some (S ''1,2,3''), Words = Some []\<rparr>]\<rparr>,
         \<lparr>Lines = Some [\<lparr>BoundingBox = None, Words = Some [\<lparr>WordText = Some (S ''a'')\<rparr>]\<rparr>]\<rparr>]\<rparr>"

definition nil_words_result :: OcrResult where
  \<comment> \<open>one line whose box has three fragments and whose \<^verbatim>\<open>Words\<close> is \<^verbatim>\<open>nil\<close>\<close>
  "nil_words_result =
     \<lparr>Regions = Some [\<lparr>Lines = Some [\<lparr>BoundingBox = Some (S ''1,2,3''), Words = None\<rparr>]\<rparr>]\<rparr>"

definition scenario :: "TextLine list" where
  \<comment> \<open>the four lines of the end-to-end scenario, in the order given\<close>
  "scenario =
     [\<lparr>Text = S ''INVOICE #4521'', X = 600, Y = 50, Width = 0, Height = 0\<rparr>,
      \<lparr>Text = S ''Acme Corp'', X = 50, Y = 40, Width = 0, Height = 0\<rparr>,
      \<lparr>Text = S ''www.acmecorp.com'', X = 50, Y = 600, Width = 0, Height = 0\<rparr>,
      \<lparr>Text = S ''Total: '' @ [euro] @ S ''1.234,50'', X = 50, Y = 900, Width = 0, Height = 0\<rparr>]"

definition scenario_sorted :: "TextLine list" where
  \<comment> \<open>the same lines by increasing \<open>Y\<close>\<close>
  "scenario_sorted =
     [\<lparr>Text = S ''Acme Corp'', X = 50, Y = 40, Width = 0, Height = 0\<rparr>,
      \<lparr>Text = S ''INVOICE #4521'', X = 600, Y = 50, Width = 0, Height = 0\<rparr>,
      \<lparr>Text = S ''www.acmecorp.com'', X = 50, Y = 600, Width = 0, Height = 0\<rparr>,
      \<lparr>Text = S ''Total: '' @ [euro] @ S ''1.234,50'', X = 50, Y = 900, Width = 0, Height = 0\<rparr>]"

definition long_s_doc :: "TextLine list" where
  \<comment> \<open>one line: \<^verbatim>\<open>Invoice: \<close> followed by two long s (U+017F)\<close>
  "long_s_doc = [\<lparr>Text = S ''Invoice: '' @ [383, 383], X = 0, Y = 0, Width = 0, Height = 0\<rparr>]"

definition long_s_hash_doc :: "TextLine list" where
  \<comment> \<open>one line: a hash sign and one long s (U+017F)\<close>
  "long_s_hash_doc = [\<lparr>Text = [35, 383], X = 0, Y = 0, Width = 0, Height = 0\<rparr>]"


section \<open>Properties of the numeric locale parser\<close>

lemmas parseAmount_eval =
  parseAmount_def processedStr_def count_rune_def lastIndex_def slice_to_def slice_from_def
  replaceAll_rune_def ParseFloat_def parse_decimal_def is_digit_def digits_value_def S_def

lemmas float64_eval =
  float64_def ilog2_def shift_frac_def roundHalfEven_def pow2_def Let_def

lemma bitlen_values:
  "bitlen 1234 = 11" "bitlen 1 = 1" "bitlen 123456 = 17" "bitlen 100 = 7"
  "bitlen 12345 = 14" "bitlen 10 = 4"
  by code_simp+

lemma float64_1234: "float64 1234 (Suc 0) = Some 1234"
  by (simp add: float64_eval bitlen_values)

lemma float64_1: "float64 (Suc 0) (Suc 0) = Some 1"
  by (simp add: float64_eval bitlen_values)

lemma float64_1234_56: "float64 123456 100 = Some (2714826150374277 / 2199023255552)"
  by (simp add: float64_eval bitlen_values)

lemma float64_1234_5: "float64 12345 10 = Some (2469 / 2)"
  by (simp add: float64_eval bitlen_values)

lemma lastIndex_from_notin:
  "c \<notin> set xs \<Longrightarrow> lastIndex_from i xs c found = found"
  by (induction xs arbitrary: i found) auto

lemma lastIndex_from_once:
  "count_rune xs c = 1 \<Longrightarrow>
   lastIndex_from i xs c found = int (i + length (takeWhile (\<lambda>x. x \<noteq> c) xs))"
proof (induction xs arbitrary: i found)
  case Nil
  then show ?case by (simp add: count_rune_def)
next
  case (Cons x xs)
  show ?case
  proof (cases "x = c")
    case True
    with Cons.prems have "filter (\<lambda>y. y = c) xs = []" by (simp add: count_rune_def)
    then have "c \<notin> set xs" by (auto simp add: filter_empty_conv)
    with True show ?thesis by (simp add: lastIndex_from_notin)
  next
    case False
    with Cons.prems have "count_rune xs c = 1" by (simp add: count_rune_def)
    with False Cons.IH show ?thesis by simp
  qed
qed

text \<open>
  What the first branch of \<^verbatim>\<open>parseAmount\<close> computes for any string with exactly one
  comma: the second assignment to \<^verbatim>\<open>processedStr\<close> keeps only the part before the comma,
  so the comma and everything after it are gone before \<^verbatim>\<open>ParseFloat\<close> runs.
\<close>

lemma processedStr_one_comma:
  assumes "count_rune s comma = 1"
  shows "processedStr s = filter (\<lambda>x. x \<noteq> period) (takeWhile (\<lambda>x. x \<noteq> comma) s)"
proof -
  let ?n = "length (takeWhile (\<lambda>x. x \<noteq> comma) s)"
  have li: "lastIndex s comma = int ?n"
    using lastIndex_from_once [OF assms, of 0] by (simp add: lastIndex_def)
  have pre: "take ?n s = takeWhile (\<lambda>x. x \<noteq> comma) s"
    by (rule takeWhile_eq_take [symmetric])
  have "length (take ?n s) = ?n"
    by (simp add: length_takeWhile_le)
  then have tk: "take ?n (take ?n s @ ys) = takeWhile (\<lambda>x. x \<noteq> comma) s" for ys
    using pre by simp
  have rp: "replaceAll_rune xs period [] = filter (\<lambda>x. x \<noteq> period) xs" for xs
    by (induction xs) (simp_all add: replaceAll_rune_def)
  have "processedStr s =
        replaceAll_rune (slice_to (slice_to s (int ?n) @ [period] @ slice_from s (int ?n + 1)) (int ?n))
          period []"
    using assms li by (auto simp add: processedStr_def Let_def)
  also have "\<dots> = filter (\<lambda>x. x \<noteq> period) (takeWhile (\<lambda>x. x \<noteq> comma) s)"
    by (simp only: slice_to_def nat_int tk rp)
  finally show ?thesis .
qed

text \<open>
  Claim C1. The five documented examples, as \<^verbatim>\<open>parseAmount\<close> computes them: the two strings
  with one period or several periods and no comma give the float64 nearest to 1234.56
  (the rational \<open>2714826150374277 / 2199023255552\<close>); the three strings with a comma lose
  everything from the comma on and give 1234, 1 and 1234.
\<close>

theorem parseAmount_documented_examples:
  "parseAmount (S ''1.234,56'') = Inr 1234 \<and>
   parseAmount (S ''1,234.56'') = Inr 1 \<and>
   parseAmount (S ''1234.56'') = Inr (2714826150374277 / 2199023255552) \<and>
   parseAmount (S ''1234,56'') = Inr 1234 \<and>
   parseAmount (S ''12.34.56'') = Inr (2714826150374277 / 2199023255552)"
  by (simp add: parseAmount_eval float64_1234 float64_1 float64_1234_56)

section \<open>Evaluating the model\<close>

lemma times_numeral: "times (numeral n) r t = Seq r (times (pred_numeral n) r t)"
  by (simp add: numeral_eq_Suc)

lemma upto_times_numeral:
  "upto_times (numeral n) r = opt (Seq r (upto_times (pred_numeral n) r))"
  by (simp add: numeral_eq_Suc)

lemmas re_eval =
  seqs_def alts_def opt_def plus_def rep_def rep_min_def chr_def lit_def fold_range_def
  fold_ranges_def icls_def ilit_def ws_def digit_def S_def in_ranges_def match_here_def
  submatches_def times_numeral upto_times_numeral FindAllStringSubmatch_def FindAllString_def
  FindString_def MatchString_def

lemmas string_eval =
  ToLower_def lower_rune_def TrimSpace_def is_space_def golen_def utf8_width_def
  TrimPrefix_def TrimSuffix_def Fields_def upper_rune_def is_lower_alnum_def is_alnum_def

lemmas int_eval = wrap64_def go_mul_def go_div_def max_X_def max_Y_def

lemmas amount_eval =
  sep_def amount_re_def cursym_def curcode_i_def curcode_def label1_def label2_def labels_def
  before_pattern_def after_pattern_def patterns_def patternsNoCurrency_def decimal_pattern_def
  capture_of_def decimal_capture_def map_currency_def currencyMap_def line_currency_def
  has_amount_keyword_def

lemmas currency_eval = detectDocumentCurrency_def count_line_def count_of_def key_orders_def

lemmas number_eval =
  alnum_hyphen_def number_capture_def punct_def no_dot_def number_patterns_def run_pattern_def

lemmas date_eval =
  date_sep_def comma_ws_def month_abbr_def month_name_def date_patterns_def dateKeywords_def

lemmas vendor_eval =
  cleanTextForComparison_def capitalize_def convertDomainToReadableName_def lower_alnum_def
  domain_label_def domain_tail_def websiteRegex_def emailRegex_def domainRegex_def
  addressRegex_def main_part_def line_websites_def line_emails_def line_urls_def
  has_header_word_def company_before_address_def

text \<open>
  Congruence rules for evaluation by the simplifier: the value bound by a \<open>let\<close>, or the
  list under a \<open>map\<close> or \<open>filter\<close>, is computed first, and the body is only simplified
  once it is applied to a value.
\<close>

lemma let_value_cong: "a = b \<Longrightarrow> (let x = a in t x) = (let x = b in t x)"
  by simp

lemma map_list_cong: "xs = ys \<Longrightarrow> map f xs = map f ys"
  by simp

lemma filter_list_cong: "xs = ys \<Longrightarrow> filter f xs = filter f ys"
  by simp

lemmas eval_cong = let_value_cong map_list_cong filter_list_cong

lemma sdiv_values:
  "(0::int) sdiv 10 = 0" "(0::int) sdiv 2 = 0" "(70::int) sdiv 10 = 7"
  "(6300::int) sdiv 10 = 630" "(2700::int) sdiv 10 = 270" "(600::int) sdiv 2 = 300"
  "(900::int) sdiv 2 = 450" "(700::int) sdiv 10 = 70" "(300::int) sdiv 10 = 30"
  "(100::int) sdiv 2 = 50"
  by (simp_all add: signed_divide_int_def)

section \<open>Properties of the document currency\<close>

lemma most_frequent_no_greater:
  "list_all (\<lambda>k. count_of cnt k \<le> m) keys \<Longrightarrow> most_frequent cnt keys m best = best"
  by (induction keys) simp_all

lemma most_frequent_zero:
  "most_frequent \<lparr>USD = 0, EUR = 0, GBP = 0\<rparr> keys 0 best = best"
  by (rule most_frequent_no_greater) (simp add: count_of_def list_all_iff)

lemma detect_empty: "detectDocumentCurrency order [] = S ''EUR''"
  by (simp add: detectDocumentCurrency_def most_frequent_zero)

section \<open>The library's sort on distinct keys\<close>

lemma sorted_rearrangement_unique:
  assumes "mset ys = mset xs" "sorted (map key ys)"
    and "mset zs = mset xs" "sorted (map key zs)"
    and "distinct (map key xs)"
  shows "ys = zs"
proof -
  from assms(1) have my: "mset (map key ys) = mset (map key xs)" by simp
  from assms(3) have mz: "mset (map key zs) = mset (map key xs)" by simp
  from my assms(5) have dy: "distinct (map key ys)"
    using mset_eq_imp_distinct_iff by blast
  from mz assms(5) have dz: "distinct (map key zs)"
    using mset_eq_imp_distinct_iff by blast
  from my mz have "set (map key ys) = set (map key zs)"
    using mset_eq_setD by metis
  with assms(2,4) dy dz have eq: "map key ys = map key zs"
    by (intro sorted_distinct_set_unique)
  from assms(5) have "inj_on key (set xs)" by (simp add: distinct_map)
  moreover from assms(1) have "set ys = set xs" by (rule mset_eq_setD)
  moreover from assms(3) have "set zs = set xs" by (rule mset_eq_setD)
  ultimately have "inj_on key (set ys \<union> set zs)" by simp
  with eq show ?thesis by (simp add: inj_on_map_eq_map)
qed

lemma sorts_by_unique:
  assumes "sorts_by key srt" "distinct (map key xs)"
  shows "srt xs = sort_key key xs"
proof -
  from assms(1) have "mset (srt xs) = mset xs" and "sorted (map key (srt xs))"
    by (simp_all add: sorts_by_def)
  moreover have "mset (sort_key key xs) = mset xs" and "sorted (map key (sort_key key xs))"
    by simp_all
  ultimately show ?thesis using assms(2) by (rule sorted_rearrangement_unique)
qed

lemma sorts_by_fixed:
  assumes "sorts_by key srt" "sorted (map key xs)" "distinct (map key xs)"
  shows "srt xs = xs"
proof -
  from assms(1) have "mset (srt xs) = mset xs" and "sorted (map key (srt xs))"
    by (simp_all add: sorts_by_def)
  moreover have "mset xs = mset xs" by simp
  ultimately show ?thesis using assms(2,3) by (rule sorted_rearrangement_unique)
qed

lemma sorts_by_Nil: "sorts_by key srt \<Longrightarrow> srt [] = []"
  by (simp add: sorts_by_fixed)

lemma sorts_by_sort_key: "sorts_by key (sort_key key)"
  by (simp add: sorts_by_def)

text \<open>
  Claim C4, at a tie. In \<open>tie_doc\<close> the counts are USD 1, EUR 0, GBP 1. The loop keeps the
  first key it meets with a count above the running maximum, so the result is USD in the
  three orders that visit USD before GBP and GBP in the other three; it is EUR in none.
\<close>

theorem detectDocumentCurrency_tie:
  "map (\<lambda>order. detectDocumentCurrency order tie_doc) key_orders =
     [S ''USD'', S ''USD'', S ''USD'', S ''GBP'', S ''GBP'', S ''GBP'']"
  by (simp add: currency_eval tie_doc_def string_eval S_def)

section \<open>Properties of the field aggregator\<close>

text \<open>
  Claim C3. For the empty line list every field is its sentinel, whatever the runtime's
  choices and whatever the library's sort does with ties: the three names are \<^verbatim>\<open>UNKNOWN\<close>,
  the amount is 0 and the currency is \<^verbatim>\<open>EUR\<close>. This holds for the aggregator of \<^verbatim>\<open>main.go\<close>
  and for that of the later revisions. The model of the engine has no error value and no
  out-of-range read: it returns a record.
\<close>

theorem empty_document_sentinels:
  "sorts_by Y sortLines \<Longrightarrow>
   parseInvoiceTextWithPosition sortLines order [] =
     \<lparr>InvoiceNumber = S ''UNKNOWN'', Date = S ''UNKNOWN'', TotalAmount = 0,
      Currency = S ''EUR'', VendorName = S ''UNKNOWN''\<rparr> \<and>
   parseInvoiceTextWithPosition_part_002 sortLines sortNames order visit [] =
     \<lparr>InvoiceNumber = S ''UNKNOWN'', Date = S ''UNKNOWN'', TotalAmount = 0,
      Currency = S ''EUR'', VendorName = S ''UNKNOWN''\<rparr>"
proof -
  assume "sorts_by Y sortLines"
  then have "sortLines [] = []" by (rule sorts_by_Nil)
  then show ?thesis
    by (simp add: parseInvoiceTextWithPosition_def parseInvoiceTextWithPosition_part_002_def
        extractVendorNameFromPosition_def extractVendorNameFromPosition_part_002_def
        extractInvoiceNumberFromPosition_def extractDateFromPosition_def
        extractAmountFromPosition_def detect_empty int_eval sdiv_values S_def)
qed

theorem empty_document_sentinels_witness:
  "sorts_by Y (sort_key Y) \<and>
   parseInvoiceTextWithPosition (sort_key Y) [S ''USD'', S ''EUR'', S ''GBP''] [] =
     \<lparr>InvoiceNumber = S ''UNKNOWN'', Date = S ''UNKNOWN'', TotalAmount = 0,
      Currency = S ''EUR'', VendorName = S ''UNKNOWN''\<rparr> \<and>
   parseInvoiceTextWithPosition_part_002 (sort_key Y) (sort_key by_length)
       [S ''USD'', S ''EUR'', S ''GBP''] (\<lambda>domains. domains) [] =
     \<lparr>InvoiceNumber = S ''UNKNOWN'', Date = S ''UNKNOWN'', TotalAmount = 0,
      Currency = S ''EUR'', VendorName = S ''UNKNOWN''\<rparr>"
  using empty_document_sentinels [of "sort_key Y" "[S ''USD'', S ''EUR'', S ''GBP'']"
      "sort_key by_length" "\<lambda>domains. domains"]
  by (simp add: sorts_by_sort_key)

lemma tie_doc_sorted: "sorts_by Y sortLines \<Longrightarrow> sortLines tie_doc = tie_doc"
  using sorts_by_fixed [of Y sortLines tie_doc] by (simp add: tie_doc_def)

lemma tie_doc_usd_first:
  "extractAmountFromPosition [S ''USD'', S ''EUR'', S ''GBP''] tie_doc = (0, S ''USD'')"
  by (simp add: extractAmountFromPosition_def currency_eval tie_doc_def string_eval int_eval
      sdiv_values amount_eval re_eval)

lemma tie_doc_gbp_first:
  "extractAmountFromPosition [S ''GBP'', S ''USD'', S ''EUR''] tie_doc = (0, S ''GBP'')"
  by (simp add: extractAmountFromPosition_def currency_eval tie_doc_def string_eval int_eval
      sdiv_values amount_eval re_eval)

text \<open>
  Claim C8. Two runs of the engine on the same lines, \<open>tie_doc\<close>, in which the loop over
  \<^verbatim>\<open>currencyCount\<close> visits the keys in two of the orders the runtime may choose: the records
  differ in their currency. The library's sort is the same function in both runs; so it is
  for the aggregator of \<^verbatim>\<open>main.go\<close> and for that of the later revisions.
\<close>

theorem two_runs_differ:
  "sorts_by Y sortLines \<Longrightarrow>
   Currency (parseInvoiceTextWithPosition sortLines [S ''USD'', S ''EUR'', S ''GBP''] tie_doc)
     = S ''USD'' \<and>
   Currency (parseInvoiceTextWithPosition sortLines [S ''GBP'', S ''USD'', S ''EUR''] tie_doc)
     = S ''GBP'' \<and>
   Currency (parseInvoiceTextWithPosition_part_002 sortLines sortNames
               [S ''USD'', S ''EUR'', S ''GBP''] visit tie_doc) = S ''USD'' \<and>
   Currency (parseInvoiceTextWithPosition_part_002 sortLines sortNames
               [S ''GBP'', S ''USD'', S ''EUR''] visit tie_doc) = S ''GBP''"
proof -
  assume "sorts_by Y sortLines"
  then have "sortLines tie_doc = tie_doc" by (rule tie_doc_sorted)
  then show ?thesis
    by (simp add: parseInvoiceTextWithPosition_def parseInvoiceTextWithPosition_part_002_def
        tie_doc_usd_first tie_doc_gbp_first Let_def)
qed

theorem two_runs_differ_witness:
  "sorts_by Y (sort_key Y) \<and>
   Currency (parseInvoiceTextWithPosition (sort_key Y) [S ''USD'', S ''EUR'', S ''GBP''] tie_doc)
     = S ''USD'' \<and>
   Currency (parseInvoiceTextWithPosition (sort_key Y) [S ''GBP'', S ''USD'', S ''EUR''] tie_doc)
     = S ''GBP''"
  using two_runs_differ [of "sort_key Y" "sort_key by_length" "\<lambda>domains. domains"]
  by (simp add: sorts_by_sort_key)

section \<open>Properties of the line normalizer\<close>

lemma write_words_result:
  "write_words words acc =
     (if list_all (\<lambda>word. WordText word \<noteq> None) words
      then Inr (acc @ concat (map (\<lambda>word. word_text word @ [32]) words))
      else Inl NilDereference)"
  by (induction words arbitrary: acc) (auto simp add: word_text_def split: option.splits)

lemma normalize_line_result:
  "normalize_line line acc = (if line_ok line then Inr (acc @ materialize line) else Inl NilDereference)"
  by (cases "BoundingBox line"; cases "Words line")
     (auto simp add: normalize_line_def line_ok_def materialize_def line_text_def parse_box_def
       write_words_result Let_def split: list.splits)

lemma normalize_lines_result:
  "normalize_lines lines acc =
     (if list_all line_ok lines then Inr (acc @ concat (map materialize lines))
      else Inl NilDereference)"
  by (induction lines arbitrary: acc) (simp_all add: normalize_line_result)

lemma normalize_regions_result:
  "normalize_regions regions acc =
     (if list_all region_ok regions then Inr (acc @ concat (map materialize (concat (map region_lines regions))))
      else Inl NilDereference)"
  by (induction regions arbitrary: acc)
     (auto simp add: normalize_lines_result region_ok_def region_lines_def split: option.splits)

lemma extractText_result:
  "extractTextFromOCRResult result =
     (if nil_free result then Inr (concat (map materialize (ocr_lines result)))
      else Inl NilDereference)"
  by (simp add: extractTextFromOCRResult_def nil_free_def ocr_lines_def
      normalize_regions_result split: option.splits)

lemma digits_value_mono: "(n::nat) \<le> foldl (\<lambda>acc c. 10 * acc + (c - 48)) n ds"
proof (induction ds arbitrary: n)
  case Nil
  show ?case by simp
next
  case (Cons c rest)
  have "n \<le> 10 * n + (c - 48)" by simp
  also have "\<dots> \<le> foldl (\<lambda>acc c. 10 * acc + (c - 48)) (10 * n + (c - 48)) rest"
    by (rule Cons.IH)
  finally show ?case by simp
qed

lemma digits_value_bound:
  "list_all is_digit ds \<Longrightarrow>
   foldl (\<lambda>acc c. 10 * acc + (c - 48)) n ds < (n + 1) * 10 ^ length ds"
proof (induction ds arbitrary: n)
  case Nil
  show ?case by simp
next
  case (Cons c rest)
  from Cons.prems have rest: "list_all is_digit rest" by simp
  from Cons.prems have d: "c - 48 \<le> 9" by (auto simp add: is_digit_def)
  have "foldl (\<lambda>acc c. 10 * acc + (c - 48)) (10 * n + (c - 48)) rest
          < (10 * n + (c - 48) + 1) * 10 ^ length rest"
    by (rule Cons.IH [OF rest])
  also have "\<dots> \<le> (10 * n + 10) * 10 ^ length rest"
    using d by (intro mult_right_mono) simp_all
  also have "\<dots> = (n + 1) * 10 ^ length (c # rest)" by (simp add: algebra_simps)
  finally show ?case by simp
qed

lemma length_le_golen: "length s \<le> golen s"
proof (induction s)
  case Nil
  show ?case by (simp add: golen_def)
next
  case (Cons c s)
  have "1 \<le> utf8_width c" by (simp add: utf8_width_def)
  with Cons show ?case by (simp add: golen_def)
qed

lemma atoi_digits_result:
  "atoi_digits ds (int n) =
     (if list_all is_digit ds then Some (int (foldl (\<lambda>acc c. 10 * acc + (c - 48)) n ds)) else None)"
proof (induction ds arbitrary: n)
  case Nil
  show ?case by simp
next
  case (Cons c rest)
  have "int n * 10 + int (c - 48) = int (10 * n + (c - 48))" by simp
  then have "atoi_digits rest (int n * 10 + int (c - 48)) =
     (if list_all is_digit rest
      then Some (int (foldl (\<lambda>acc c. 10 * acc + (c - 48)) (10 * n + (c - 48)) rest)) else None)"
    using Cons.IH [of "10 * n + (c - 48)"] by (simp only:)
  then show ?case by simp
qed

lemma parse_uint_step:
  assumes "is_digit c" "n < 2 ^ 64"
  shows "parse_uint_loop (c # rest) n =
           (if 10 * n + (c - 48) < 2 ^ 64 then parse_uint_loop rest (10 * n + (c - 48))
            else (maxUint64, Some ErrRange))"
proof -
  define d where "d = c - 48"
  from assms(1) have d: "d \<le> 9" by (auto simp add: d_def is_digit_def)
  have unfold: "parse_uint_loop (c # rest) n =
     (if n \<ge> maxUint64 div 10 + 1 then (maxUint64, Some ErrRange)
      else let n10 = (n * 10) mod 2 ^ 64;
               n1 = (n10 + d) mod 2 ^ 64
           in if n1 < n10 \<or> n1 > maxUint64 then (maxUint64, Some ErrRange)
              else parse_uint_loop rest n1)"
    using assms(1) unfolding d_def by (simp only: parse_uint_loop.simps simp_thms if_False)
  have goal: "parse_uint_loop (c # rest) n =
           (if 10 * n + d < 2 ^ 64 then parse_uint_loop rest (10 * n + d)
            else (maxUint64, Some ErrRange))"
  proof (cases "n \<ge> 1844674407370955162")
    case True
    then have "\<not> 10 * n + d < 2 ^ 64" by simp
    with True show ?thesis by (subst unfold) (simp add: maxUint64_def)
  next
    case False
    then have n10: "(n * 10) mod 2 ^ 64 = n * 10" by simp
    show ?thesis
    proof (cases "10 * n + d < 2 ^ 64")
      case True
      then have n1: "(n * 10 + d) mod 2 ^ 64 = n * 10 + d" by (simp add: mult.commute)
      from False True show ?thesis
        by (subst unfold) (simp add: maxUint64_def n10 n1 Let_def mult.commute)
    next
      case over: False
      from over False d have n1: "(n * 10 + d) mod 2 ^ 64 = n * 10 + d - 2 ^ 64"
        by (simp add: mod_if mult.commute)
      from over False d have "n * 10 + d - 2 ^ 64 < n * 10" by simp
      with n1 have "(n * 10 + d) mod 2 ^ 64 < n * 10" by simp
      with False over show ?thesis by (subst unfold) (simp add: maxUint64_def n10 Let_def)
    qed
  qed
  then show ?thesis by (simp only: d_def)
qed

lemma parse_uint_digits:
  "list_all is_digit ds \<Longrightarrow> n < 2 ^ 64 \<Longrightarrow>
   parse_uint_loop ds n =
     (if foldl (\<lambda>acc c. 10 * acc + (c - 48)) n ds < 2 ^ 64
      then (foldl (\<lambda>acc c. 10 * acc + (c - 48)) n ds, None)
      else (maxUint64, Some ErrRange))"
proof (induction ds arbitrary: n)
  case Nil
  then show ?case by simp
next
  case (Cons c rest)
  let ?v = "foldl (\<lambda>acc c. 10 * acc + (c - 48)) (10 * n + (c - 48)) rest"
  from Cons.prems have dig: "is_digit c" and rest: "list_all is_digit rest" by simp_all
  have mono: "10 * n + (c - 48) \<le> ?v" by (rule digits_value_mono)
  show ?case
  proof (cases "10 * n + (c - 48) < 2 ^ 64")
    case True
    with Cons.IH [OF rest True] show ?thesis
      by (simp only: parse_uint_step [OF dig Cons.prems(2)] foldl_Cons if_True)
  next
    case False
    with mono have "\<not> ?v < 2 ^ 64" by simp
    with False show ?thesis
      by (simp only: parse_uint_step [OF dig Cons.prems(2)] foldl_Cons if_False)
  qed
qed

lemma parse_uint_nondigit:
  "list_all is_digit ds \<Longrightarrow> \<not> is_digit c \<Longrightarrow> n < 2 ^ 64 \<Longrightarrow>
   parse_uint_loop (ds @ c # rest) n =
     (if foldl (\<lambda>acc c. 10 * acc + (c - 48)) n ds < 2 ^ 64
      then (0, Some ErrSyntax)
      else (maxUint64, Some ErrRange))"
proof (induction ds arbitrary: n)
  case Nil
  then show ?case by simp
next
  case (Cons e ds)
  let ?v = "foldl (\<lambda>acc c. 10 * acc + (c - 48)) (10 * n + (e - 48)) ds"
  from Cons.prems have dig: "is_digit e" and ds: "list_all is_digit ds" by simp_all
  have mono: "10 * n + (e - 48) \<le> ?v" by (rule digits_value_mono)
  show ?case
  proof (cases "10 * n + (e - 48) < 2 ^ 64")
    case True
    with Cons.IH [OF ds Cons.prems(2) True] show ?thesis
      by (simp only: parse_uint_step [OF dig Cons.prems(3)] foldl_Cons if_True append_Cons)
  next
    case False
    with mono have "\<not> ?v < 2 ^ 64" by simp
    with False show ?thesis
      by (simp only: parse_uint_step [OF dig Cons.prems(3)] foldl_Cons if_False append_Cons)
  qed
qed

lemma ParseUint_result:
  "ParseUint u =
     (if u = [] then (0, Some ErrSyntax)
      else if list_all is_digit u
      then (if digits_value u < 2 ^ 64 then (digits_value u, None)
            else (maxUint64, Some ErrRange))
      else if digits_value (takeWhile is_digit u) < 2 ^ 64 then (0, Some ErrSyntax)
      else (maxUint64, Some ErrRange))"
proof (cases "list_all is_digit u")
  case True
  then show ?thesis by (simp add: ParseUint_def parse_uint_digits digits_value_def)
next
  case False
  then have "dropWhile is_digit u \<noteq> []" by (simp add: list_all_iff)
  then obtain c rest where drop: "dropWhile is_digit u = c # rest"
    by (cases "dropWhile is_digit u") simp_all
  then have c: "\<not> is_digit c" using hd_dropWhile [of is_digit u] by auto
  have u: "u = takeWhile is_digit u @ c # rest"
    using takeWhile_dropWhile_id [of is_digit u] drop by simp
  have digs: "list_all is_digit (takeWhile is_digit u)"
    by (simp add: list_all_iff) (meson set_takeWhileD)
  have "parse_uint_loop (takeWhile is_digit u @ c # rest) 0 =
     (if digits_value (takeWhile is_digit u) < 2 ^ 64 then (0, Some ErrSyntax)
      else (maxUint64, Some ErrRange))"
    using parse_uint_nondigit [OF digs c, of 0 rest] by (simp add: digits_value_def)
  with u have "parse_uint_loop u 0 =
     (if digits_value (takeWhile is_digit u) < 2 ^ 64 then (0, Some ErrSyntax)
      else (maxUint64, Some ErrRange))" by simp
  moreover from False have "u \<noteq> []" by auto
  ultimately show ?thesis using False by (simp add: ParseUint_def)
qed

lemma ParseInt_result:
  "ParseInt s =
     (if is_decimal s
      then (if decimal_value s > 2 ^ 63 - 1 then (2 ^ 63 - 1, Some ErrRange)
            else if decimal_value s < - (2 ^ 63) then (- (2 ^ 63), Some ErrRange)
            else (decimal_value s, None))
      else if leading_value s < 2 ^ 64 then (0, Some ErrSyntax)
      else (if negative s then - (2 ^ 63) else 2 ^ 63 - 1, Some ErrRange))"
proof (cases "s = []")
  case True
  then show ?thesis
    by (simp add: ParseInt_def is_decimal_def unsigned_part_def leading_value_def
        digits_value_def)
next
  case False
  then have u: "(if hd s = 43 \<or> hd s = 45 then tl s else s) = unsigned_part s"
    and neg: "(hd s = 45) = negative s"
    by (simp_all add: unsigned_part_def negative_def)
  have P: "ParseInt s =
       (let un = fst (ParseUint (unsigned_part s));
            err = snd (ParseUint (unsigned_part s))
        in if err \<noteq> None \<and> err \<noteq> Some ErrRange then (0, err)
           else if \<not> negative s \<and> un \<ge> 2 ^ 63 then (2 ^ 63 - 1, Some ErrRange)
           else if negative s \<and> un > 2 ^ 63 then (- (2 ^ 63), Some ErrRange)
           else (if negative s then - int un else int un, None))"
    using False by (simp add: ParseInt_def Let_def unsigned_part_def negative_def)
  show ?thesis
  proof (cases "is_decimal s")
    case True
    then have ne: "unsigned_part s \<noteq> []" and digs: "list_all is_digit (unsigned_part s)"
      by (simp_all add: is_decimal_def)
    show ?thesis
    proof (cases "digits_value (unsigned_part s) < 2 ^ 64")
      case small: True
      with ne digs have "ParseUint (unsigned_part s) = (digits_value (unsigned_part s), None)"
        by (simp add: ParseUint_result)
      with True show ?thesis
        by (auto simp add: P decimal_value_def Let_def)
    next
      case big: False
      with ne digs have "ParseUint (unsigned_part s) = (maxUint64, Some ErrRange)"
        by (simp add: ParseUint_result)
      with True big show ?thesis
        by (auto simp add: P decimal_value_def Let_def maxUint64_def)
    qed
  next
    case False
    show ?thesis
    proof (cases "leading_value s < 2 ^ 64")
      case small: True
      with False have "ParseUint (unsigned_part s) = (0, Some ErrSyntax)"
        by (auto simp add: ParseUint_result is_decimal_def leading_value_def)
      with False small show ?thesis by (simp add: P Let_def)
    next
      case big: False
      then have "unsigned_part s \<noteq> []"
        by (auto simp add: leading_value_def digits_value_def)
      with False big have "ParseUint (unsigned_part s) = (maxUint64, Some ErrRange)"
        by (auto simp add: ParseUint_result is_decimal_def leading_value_def)
      with False big show ?thesis by (simp add: P Let_def maxUint64_def)
    qed
  qed
qed

lemma atoi_fast_result:
  assumes "s \<noteq> []" "length s < 19"
  shows "atoi_fast s =
     (if is_decimal s then (decimal_value s, None) else (0, Some ErrSyntax))"
proof -
  from assms(1) have u: "(if hd s = 45 \<or> hd s = 43 then tl s else s) = unsigned_part s"
    and neg: "(hd s = 45) = negative s"
    by (auto simp add: unsigned_part_def negative_def)
  have "atoi_digits (unsigned_part s) (int 0) =
     (if list_all is_digit (unsigned_part s)
      then Some (int (digits_value (unsigned_part s))) else None)"
    by (simp only: atoi_digits_result digits_value_def)
  then have digits: "atoi_digits (unsigned_part s) 0 =
     (if list_all is_digit (unsigned_part s)
      then Some (int (digits_value (unsigned_part s))) else None)"
    by simp
  have "atoi_fast s =
     (if length (unsigned_part s) < 1 then (0, Some ErrSyntax)
      else (case atoi_digits (unsigned_part s) 0 of
              None \<Rightarrow> (0, Some ErrSyntax)
            | Some n \<Rightarrow> (if negative s then - n else n, None)))"
    using assms(1)
    by (auto simp add: atoi_fast_def Let_def unsigned_part_def negative_def split: option.splits)
  then show ?thesis
    by (auto simp add: digits is_decimal_def decimal_value_def)
qed

lemma short_decimal_in_range:
  assumes "length s < 19" "list_all is_digit (unsigned_part s)"
  shows "digits_value (unsigned_part s) < 10 ^ 18"
proof -
  have "length (unsigned_part s) \<le> length s" by (simp add: unsigned_part_def)
  with assms(1) have len: "length (unsigned_part s) \<le> 18" by simp
  have "digits_value (unsigned_part s) < (0 + 1) * 10 ^ length (unsigned_part s)"
    unfolding digits_value_def by (rule digits_value_bound [OF assms(2)])
  moreover have "(10::nat) ^ length (unsigned_part s) \<le> 10 ^ 18"
    using len by (intro power_increasing) simp_all
  ultimately show ?thesis by simp
qed

lemma short_leading_value:
  assumes "length s < 19"
  shows "leading_value s < 10 ^ 18"
proof -
  let ?t = "takeWhile is_digit (unsigned_part s)"
  have "length ?t \<le> length (unsigned_part s)" by (rule length_takeWhile_le)
  also have "\<dots> \<le> length s" by (simp add: unsigned_part_def)
  finally have len: "length ?t \<le> 18" using assms by simp
  have digs: "list_all is_digit ?t" by (simp add: list_all_iff) (meson set_takeWhileD)
  have "digits_value ?t < (0 + 1) * 10 ^ length ?t"
    unfolding digits_value_def by (rule digits_value_bound [OF digs])
  moreover have "(10::nat) ^ length ?t \<le> 10 ^ 18"
    using len by (intro power_increasing) simp_all
  ultimately show ?thesis by (simp add: leading_value_def)
qed

lemma Atoi_result:
  "Atoi s =
     (if is_decimal s
      then (if decimal_value s > 2 ^ 63 - 1 then (2 ^ 63 - 1, Some ErrRange)
            else if decimal_value s < - (2 ^ 63) then (- (2 ^ 63), Some ErrRange)
            else (decimal_value s, None))
      else if leading_value s < 2 ^ 64 then (0, Some ErrSyntax)
      else (if negative s then - (2 ^ 63) else 2 ^ 63 - 1, Some ErrRange))"
proof (cases "0 < golen s \<and> golen s < 19")
  case False
  then have "Atoi s = ParseInt s" by (auto simp add: Atoi_def Let_def)
  then show ?thesis by (simp only: ParseInt_result)
next
  case True
  then have ne: "s \<noteq> []" by (auto simp add: golen_def)
  from True have len: "length s < 19" using length_le_golen [of s] by simp
  from True have fast: "Atoi s = atoi_fast s" by (simp add: Atoi_def Let_def)
  show ?thesis
  proof (cases "is_decimal s")
    case dec: True
    then have "digits_value (unsigned_part s) < 10 ^ 18"
      using short_decimal_in_range [OF len] by (simp add: is_decimal_def)
    then have "\<not> decimal_value s > 2 ^ 63 - 1" "\<not> decimal_value s < - (2 ^ 63)"
      by (simp_all add: decimal_value_def)
    with dec show ?thesis by (simp add: fast atoi_fast_result [OF ne len])
  next
    case nodec: False
    have "leading_value s < 10 ^ 18" by (rule short_leading_value [OF len])
    then have "leading_value s < 2 ^ 64" by simp
    with nodec show ?thesis by (simp add: fast atoi_fast_result [OF ne len])
  qed
qed

lemma Atoi_x: "Atoi (S ''x'') = (0, Some ErrSyntax)"
  by (simp add: Atoi_def atoi_fast_def S_def is_digit_def golen_def utf8_width_def)

lemma Atoi_huge: "Atoi (S ''99999999999999999999'') = (9223372036854775807, Some ErrRange)"
  by (simp add: Atoi_def ParseInt_def ParseUint_def S_def is_digit_def golen_def utf8_width_def
      maxUint64_def Let_def)

lemma Atoi_huge_x: "Atoi (S ''99999999999999999999x'') = (9223372036854775807, Some ErrRange)"
  by (simp add: Atoi_def ParseInt_def ParseUint_def S_def is_digit_def golen_def utf8_width_def
      maxUint64_def Let_def)

lemma Atoi_small: "Atoi (S ''3'') = (3, None)" "Atoi (S ''4'') = (4, None)"
  by (simp_all add: Atoi_def atoi_fast_def S_def is_digit_def golen_def utf8_width_def)

lemma box_line_split:
  "split_on comma (S ''x,99999999999999999999,3,4'') =
     [S ''x'', S ''99999999999999999999'', S ''3'', S ''4'']"
  by (simp add: S_def)

lemma box_line_text: "line_text box_line = S ''Hello World''"
  by (simp add: line_text_def word_text_def box_line_def TrimSpace_def is_space_def S_def)

lemma box_line_materialize:
  "materialize box_line =
     [\<lparr>Text = S ''Hello World'', X = 0, Y = 9223372036854775807, Width = 3, Height = 4\<rparr>]"
proof -
  have "BoundingBox box_line = Some (S ''x,99999999999999999999,3,4'')"
    by (simp add: box_line_def)
  then show ?thesis
    by (simp add: materialize_def box_line_split Atoi_x Atoi_huge Atoi_small box_line_text)
qed

lemma box_line_ok: "line_ok box_line"
  by (simp add: line_ok_def box_line_def)

lemma short_box_dropped: "materialize \<lparr>BoundingBox = Some (S ''1,2,3''), Words = words\<rparr> = []"
  by (simp add: materialize_def S_def)

lemma no_box_dropped: "materialize \<lparr>BoundingBox = None, Words = words\<rparr> = []"
  by (simp add: materialize_def)

lemma materialize_cases:
  "materialize =
     (\<lambda>line. case BoundingBox line of
        None \<Rightarrow> []
      | Some box \<Rightarrow>
          (case split_on comma box of
             x # y # w # h # rest \<Rightarrow>
               [\<lparr>Text = line_text line, X = fst (Atoi x), Y = fst (Atoi y),
                 Width = fst (Atoi w), Height = fst (Atoi h)\<rparr>]
           | _ \<Rightarrow> []))"
  by (rule ext) (simp add: materialize_def)

text \<open>
  Claim C7, as stated, fails on \<open>box_result\<close>: only two of the four fragments of its line
  are integers that parse, yet the line is materialized; and the fragment that is out of
  range does not default to 0, it becomes the largest \<^verbatim>\<open>int\<close>. It also fails on
  \<open>nil_words_result\<close>: the box of its line has three fragments, but the line is not dropped
  in silence, the normalizer panics on its \<^verbatim>\<open>Words\<close>.
\<close>

theorem box_line_materialized:
  "extractTextFromOCRResult box_result =
     Inr [\<lparr>Text = S ''Hello World'', X = 0, Y = 9223372036854775807, Width = 3, Height = 4\<rparr>] \<and>
   Atoi (S ''x'') = (0, Some ErrSyntax) \<and>
   Atoi (S ''99999999999999999999'') = (9223372036854775807, Some ErrRange) \<and>
   extractTextFromOCRResult nil_words_result = Inl NilDereference"
proof -
  have "\<not> line_ok \<lparr>BoundingBox = Some (S ''1,2,3''), Words = None\<rparr>"
    by (simp add: line_ok_def)
  then show ?thesis
    by (simp add: extractText_result nil_free_def region_ok_def ocr_lines_def region_lines_def
        box_result_def nil_words_result_def box_line_ok box_line_materialize Atoi_x Atoi_huge)
qed

text \<open>
  Claim C7, amended. Take a result in which none of the pointers that the normalizer
  dereferences is \<^verbatim>\<open>nil\<close>: \<^verbatim>\<open>Regions\<close>, the \<^verbatim>\<open>Lines\<close> of every region, the \<^verbatim>\<open>Words\<close> of every line
  and the \<^verbatim>\<open>Text\<close> of every word. The normalizer goes through the lines of all regions in
  order and returns without an error. A line becomes a \<open>TextLine\<close> exactly when it has a
  bounding box with at least four fragments between commas; its position is what \<^verbatim>\<open>Atoi\<close>
  returns for the first four, and its text is the words joined by spaces. Every other line
  is left out. \<^verbatim>\<open>Atoi\<close> returns the integer that a fragment denotes when the fragment is a
  decimal integer within the range of \<^verbatim>\<open>int\<close>, and the nearest bound of the range when it is a
  decimal integer outside it. For a fragment that is no decimal integer it returns 0,
  unless the digits at its start already exceed 64 bits: then it returns the bound of the
  range on the side of the sign. None of this stops the line.
\<close>

theorem normalizer_materializes:
  "(nil_free result \<longrightarrow>
    extractTextFromOCRResult result =
      Inr (concat (map (\<lambda>line.
             case BoundingBox line of
               None \<Rightarrow> []
             | Some box \<Rightarrow>
                 (case split_on comma box of
                    x # y # w # h # rest \<Rightarrow>
                      [\<lparr>Text = line_text line, X = fst (Atoi x), Y = fst (Atoi y),
                        Width = fst (Atoi w), Height = fst (Atoi h)\<rparr>]
                  | _ \<Rightarrow> [])) (ocr_lines result)))) \<and>
   Atoi s =
     (if is_decimal s
      then (if decimal_value s > 2 ^ 63 - 1 then (2 ^ 63 - 1, Some ErrRange)
            else if decimal_value s < - (2 ^ 63) then (- (2 ^ 63), Some ErrRange)
            else (decimal_value s, None))
      else if leading_value s < 2 ^ 64 then (0, Some ErrSyntax)
      else (if negative s then - (2 ^ 63) else 2 ^ 63 - 1, Some ErrRange))"
proof (intro conjI impI)
  assume "nil_free result"
  then show "extractTextFromOCRResult result =
      Inr (concat (map (\<lambda>line.
             case BoundingBox line of
               None \<Rightarrow> []
             | Some box \<Rightarrow>
                 (case split_on comma box of
                    x # y # w # h # rest \<Rightarrow>
                      [\<lparr>Text = line_text line, X = fst (Atoi x), Y = fst (Atoi y),
                        Width = fst (Atoi w), Height = fst (Atoi h)\<rparr>]
                  | _ \<Rightarrow> [])) (ocr_lines result)))"
    using extractText_result [of result] by (simp only: materialize_cases if_True)
next
  show "Atoi s =
     (if is_decimal s
      then (if decimal_value s > 2 ^ 63 - 1 then (2 ^ 63 - 1, Some ErrRange)
            else if decimal_value s < - (2 ^ 63) then (- (2 ^ 63), Some ErrRange)
            else (decimal_value s, None))
      else if leading_value s < 2 ^ 64 then (0, Some ErrSyntax)
      else (if negative s then - (2 ^ 63) else 2 ^ 63 - 1, Some ErrRange))"
    by (rule Atoi_result)
qed

theorem normalizer_materializes_witness:
  "nil_free mixed_result \<and>
   extractTextFromOCRResult mixed_result =
     Inr [\<lparr>Text = S ''Hello World'', X = 0, Y = 9223372036854775807, Width = 3, Height = 4\<rparr>] \<and>
   is_decimal (S ''-12'') \<and> Atoi (S ''-12'') = (- 12, None) \<and>
   \<not> is_decimal (S ''x'') \<and> Atoi (S ''x'') = (0, Some ErrSyntax) \<and>
   is_decimal (S ''99999999999999999999'') \<and>
   Atoi (S ''99999999999999999999'') = (2 ^ 63 - 1, Some ErrRange) \<and>
   \<not> is_decimal (S ''99999999999999999999x'') \<and>
   Atoi (S ''99999999999999999999x'') = (2 ^ 63 - 1, Some ErrRange)"
proof -
  have mixed: "nil_free mixed_result"
    by (simp add: nil_free_def region_ok_def line_ok_def mixed_result_def box_line_def)
  have lines: "ocr_lines mixed_result =
     [box_line, \<lparr>BoundingBox = Some (S ''1,2,3''), Words = Some []\<rparr>,
      \<lparr>BoundingBox = None, Words = Some [\<lparr>WordText = Some (S ''a'')\<rparr>]\<rparr>]"
    by (simp add: ocr_lines_def region_lines_def mixed_result_def)
  have vals:
    "is_decimal (S ''-12'')" "decimal_value (S ''-12'') = - 12"
    "\<not> is_decimal (S ''x'')" "leading_value (S ''x'') = 0"
    "is_decimal (S ''99999999999999999999'')"
    "decimal_value (S ''99999999999999999999'') = 99999999999999999999"
    "\<not> is_decimal (S ''99999999999999999999x'')"
    "leading_value (S ''99999999999999999999x'') = 99999999999999999999"
    "negative (S ''99999999999999999999x'') = False"
    by (simp_all add: is_decimal_def decimal_value_def leading_value_def negative_def
        unsigned_part_def digits_value_def is_digit_def S_def)
  from normalizer_materializes [of mixed_result "S ''-12''"]
    normalizer_materializes [of mixed_result "S ''x''"]
    normalizer_materializes [of mixed_result "S ''99999999999999999999''"]
    normalizer_materializes [of mixed_result "S ''99999999999999999999x''"]
  show ?thesis
    by (simp add: mixed lines vals materialize_cases [symmetric] box_line_materialize
        short_box_dropped no_box_dropped)
qed

lemma scenario_sort: "sorts_by Y sortLines \<Longrightarrow> sortLines scenario = scenario_sorted"
proof -
  assume "sorts_by Y sortLines"
  moreover have "distinct (map Y scenario)" by (simp add: scenario_def)
  ultimately have "sortLines scenario = sort_key Y scenario" by (rule sorts_by_unique)
  also have "\<dots> = scenario_sorted" by (simp add: scenario_def scenario_sorted_def)
  finally show ?thesis .
qed

lemma scenario_keyword_lines: "keyword_lines scenario_sorted cur = Inl (1234, S ''EUR'')"
  by (simp add: scenario_sorted_def string_eval amount_eval re_eval parseAmount_eval
      float64_1234 Let_def cong: eval_cong)

lemma scenario_amount: "extractAmountFromPosition order scenario_sorted = (1234, S ''EUR'')"
  by (simp add: extractAmountFromPosition_def scenario_keyword_lines Let_def)

lemma scenario_number: "extractInvoiceNumberFromPosition scenario_sorted = S ''4521''"
  by (simp add: extractInvoiceNumberFromPosition_def scenario_sorted_def int_eval sdiv_values
      string_eval number_eval re_eval Let_def cong: eval_cong)

lemma scenario_vendor:
  "sorts_by Y sortLines \<Longrightarrow>
   extractVendorNameFromPosition sortLines scenario_sorted = S ''Acme Corp''"
proof -
  assume "sorts_by Y sortLines"
  note fixed = sorts_by_fixed [OF this]
  show ?thesis
    by (simp add: extractVendorNameFromPosition_def scenario_sorted_def int_eval sdiv_values
        string_eval longest_step_def fixed S_def Let_def cong: eval_cong)
qed

lemma scenario_vendor_part_002:
  "sorts_by Y sortLines \<Longrightarrow>
   extractVendorNameFromPosition_part_002 sortLines sortNames visit scenario_sorted
     = S ''Acme Corp''"
proof -
  assume "sorts_by Y sortLines"
  note fixed = sorts_by_fixed [OF this]
  show ?thesis
    by (simp add: extractVendorNameFromPosition_part_002_def scenario_sorted_def int_eval
        sdiv_values string_eval vendor_eval re_eval fixed Let_def cong: eval_cong)
qed

text \<open>
  Claim C2. On the four lines of the scenario, whatever the runtime's choices and whatever
  the library's sort does with ties, the aggregator returns the vendor \<^verbatim>\<open>Acme Corp\<close>, the
  invoice number \<^verbatim>\<open>4521\<close> and the currency \<^verbatim>\<open>EUR\<close>, as the claim says; the total amount it
  returns is 1234, not 1234.50: the keyword pattern captures \<^verbatim>\<open>1.234,50\<close> and \<^verbatim>\<open>parseAmount\<close>
  drops the comma and the digits after it. This holds for the aggregator of \<^verbatim>\<open>main.go\<close>,
  with its own vendor resolver, and for that of the later revisions, whose vendor resolver
  compares the line with the domain of the website.
\<close>

theorem scenario_fields:
  "sorts_by Y sortLines \<Longrightarrow>
   VendorName (parseInvoiceTextWithPosition sortLines order scenario) = S ''Acme Corp'' \<and>
   InvoiceNumber (parseInvoiceTextWithPosition sortLines order scenario) = S ''4521'' \<and>
   TotalAmount (parseInvoiceTextWithPosition sortLines order scenario) = 1234 \<and>
   Currency (parseInvoiceTextWithPosition sortLines order scenario) = S ''EUR'' \<and>
   VendorName (parseInvoiceTextWithPosition_part_002 sortLines sortNames order visit scenario)
     = S ''Acme Corp'' \<and>
   InvoiceNumber (parseInvoiceTextWithPosition_part_002 sortLines sortNames order visit scenario)
     = S ''4521'' \<and>
   TotalAmount (parseInvoiceTextWithPosition_part_002 sortLines sortNames order visit scenario)
     = 1234 \<and>
   Currency (parseInvoiceTextWithPosition_part_002 sortLines sortNames order visit scenario)
     = S ''EUR''"
proof -
  assume s: "sorts_by Y sortLines"
  show ?thesis
    by (simp add: parseInvoiceTextWithPosition_def parseInvoiceTextWithPosition_part_002_def
        scenario_sort [OF s] scenario_amount scenario_number scenario_vendor [OF s]
        scenario_vendor_part_002 [OF s] Let_def)
qed

theorem scenario_fields_witness:
  "sorts_by Y (sort_key Y) \<and>
   VendorName (parseInvoiceTextWithPosition (sort_key Y) [S ''USD'', S ''EUR'', S ''GBP'']
                 scenario) = S ''Acme Corp'' \<and>
   InvoiceNumber (parseInvoiceTextWithPosition (sort_key Y) [S ''USD'', S ''EUR'', S ''GBP'']
                    scenario) = S ''4521'' \<and>
   TotalAmount (parseInvoiceTextWithPosition (sort_key Y) [S ''USD'', S ''EUR'', S ''GBP'']
                  scenario) = 1234 \<and>
   Currency (parseInvoiceTextWithPosition (sort_key Y) [S ''USD'', S ''EUR'', S ''GBP'']
               scenario) = S ''EUR''"
  using scenario_fields [of "sort_key Y" "[S ''USD'', S ''EUR'', S ''GBP'']"
      "sort_key by_length" "\<lambda>domains. domains"]
  by (simp add: sorts_by_sort_key)

section \<open>What a match can capture\<close>

lemma in_ranges_within:
  assumes "ranges_within rs C" "in_ranges rs x"
  shows "in_ranges C x"
proof -
  from assms(2) obtain r where r: "r \<in> set rs" "fst r \<le> x" "x \<le> snd r"
    by (auto simp add: in_ranges_def list_ex_iff)
  from assms(1) r(1) obtain c where c: "c \<in> set C" "fst c \<le> fst r" "snd r \<le> snd c"
    by (auto simp add: ranges_within_def list_all_iff list_ex_iff)
  from r c have "fst c \<le> x \<and> x \<le> snd c" by simp
  with c(1) show ?thesis by (auto simp add: in_ranges_def list_ex_iff)
qed

lemma consumed_trans:
  assumes "consumed i C in1 s c m1" "consumed i C in2 (fst m1) (snd m1) m"
  shows "consumed i C (in1 \<and> in2) s c m"
  using assms unfolding consumed_def by (metis append.assoc list_all_append)

lemma consumed_weaken: "consumed i C inside s c m \<Longrightarrow> (inside' \<longrightarrow> inside) \<Longrightarrow> consumed i C inside' s c m"
  unfolding consumed_def by blast

lemma consumed_refl: "consumed i C inside s c (s, c)"
  unfolding consumed_def by simp

lemma star_list_consumed:
  assumes body: "\<And>s c m. m \<in> set (body s c) \<Longrightarrow> consumed i C inside s c m"
  shows "m \<in> set (star_list body fuel s c) \<Longrightarrow> consumed i C inside s c m"
proof (induction fuel arbitrary: s c)
  case Nil
  then show ?case by (simp add: consumed_refl)
next
  case (Cons f fuel)
  from Cons.prems consider
      (iter) m1 where "m1 \<in> set (body s c)" "length (fst m1) < length s"
                      "m \<in> set (star_list body fuel (fst m1) (snd m1))"
    | (stop) "m = (s, c)"
    by (auto split: if_splits)
  then show ?case
  proof cases
    case iter
    from body [OF iter(1)] Cons.IH [OF iter(3)]
    have "consumed i C (inside \<and> inside) s c m" by (rule consumed_trans)
    then show ?thesis by simp
  next
    case stop
    then show ?thesis by (simp add: consumed_refl)
  qed
qed

lemma rmatch_consumed:
  "m \<in> set (rmatch r s c) \<Longrightarrow> groups_within i C r \<Longrightarrow> consumed i C (stays_in C r) s c m"
proof (induction r arbitrary: s c m)
  case (Cls rs)
  then show ?case
    by (auto simp add: consumed_def in_ranges_within split: list.splits if_splits)
next
  case (NCls rs)
  then show ?case
    by (auto simp add: consumed_def split: list.splits if_splits)
next
  case Eps
  then show ?case by (simp add: consumed_refl)
next
  case (Seq a b)
  from Seq.prems obtain m1 where m1: "m1 \<in> set (rmatch a s c)"
      and m: "m \<in> set (rmatch b (fst m1) (snd m1))"
    by auto
  from Seq.prems have ga: "groups_within i C a" and gb: "groups_within i C b" by simp_all
  from Seq.IH(1) [OF m1 ga] Seq.IH(2) [OF m gb]
  have "consumed i C (stays_in C a \<and> stays_in C b) s c m" by (rule consumed_trans)
  then show ?case by simp
next
  case (Alt a b)
  from Alt.prems have "m \<in> set (rmatch a s c) \<or> m \<in> set (rmatch b s c)" by simp
  moreover from Alt.prems have ga: "groups_within i C a" and gb: "groups_within i C b" by simp_all
  ultimately show ?case
    using Alt.IH(1) [of m s c] Alt.IH(2) [of m s c]
    by (auto intro: consumed_weaken)
next
  case (Star a)
  from Star.prems have ga: "groups_within i C a" by simp
  have "consumed i C (stays_in C a) s c m"
  proof (rule star_list_consumed)
    show "m \<in> set (star_list (rmatch a) s s c)" using Star.prems by simp
  next
    fix s' c' m'
    assume "m' \<in> set (rmatch a s' c')"
    then show "consumed i C (stays_in C a) s' c' m'" using ga by (rule Star.IH)
  qed
  then show ?case by simp
next
  case (Grp j a)
  from Grp.prems obtain m1 where m1: "m1 \<in> set (rmatch a s c)"
      and m: "m = (fst m1, (snd m1)(j \<mapsto> take (length s - length (fst m1)) s))"
    by auto
  from Grp.prems have ga: "groups_within i C a" and gj: "j = i \<Longrightarrow> stays_in C a" by simp_all
  from Grp.IH [OF m1 ga] obtain w where w: "s = w @ fst m1"
      "cap_ok i C c \<longrightarrow> cap_ok i C (snd m1)" "stays_in C a \<longrightarrow> list_all (in_ranges C) w"
    unfolding consumed_def by blast
  from w(1) have tk: "take (length s - length (fst m1)) s = w" by simp
  show ?case
    unfolding consumed_def
  proof (intro exI conjI impI)
    show "s = w @ fst m" using w(1) m by simp
  next
    assume "cap_ok i C c"
    with w(2) have "cap_ok i C (snd m1)" by simp
    then show "cap_ok i C (snd m)"
      using m tk gj w(3) by (auto simp add: cap_ok_def)
  next
    assume "stays_in C (Grp j a)"
    then show "list_all (in_ranges C) w" using w(3) by simp
  qed
qed

lemma stays_in_groups: "stays_in C r \<Longrightarrow> groups_within i C r"
  by (induction r) simp_all

lemma match_here_consumed:
  assumes "match_here r s = Some m" "groups_within i C r"
  shows "consumed i C (stays_in C r) s Map.empty m"
proof -
  from assms(1) have "m \<in> set (rmatch r s Map.empty)"
    by (auto simp add: match_here_def split: list.splits)
  then show ?thesis using assms(2) by (rule rmatch_consumed)
qed

lemma length_submatches: "length (submatches r s m) = Suc (ngroups r)"
  by (simp add: submatches_def)

lemma submatches_nth:
  assumes "1 \<le> i" "i < length (submatches r s m)"
  shows "submatches r s m ! i = (case snd m i of None \<Rightarrow> [] | Some w \<Rightarrow> w)"
proof -
  from assms have "i < Suc (ngroups r)" by (simp only: length_submatches)
  with assms(1) obtain j where j: "i = Suc j" "j < ngroups r"
    by (cases i) simp_all
  then have "[1..<Suc (ngroups r)] ! j = i"
    using nth_upt [of 1 j "Suc (ngroups r)"] by simp
  with j show ?thesis by (simp add: submatches_def del: upt_Suc)
qed

lemma submatches_group:
  assumes "match_here r s = Some m" "groups_within i C r" "1 \<le> i"
    "i < length (submatches r s m)"
  shows "list_all (in_ranges C) (submatches r s m ! i)"
proof -
  from match_here_consumed [OF assms(1,2)] have "cap_ok i C (snd m)"
    by (auto simp add: consumed_def cap_ok_def)
  then show ?thesis
    using submatches_nth [OF assms(3,4)] by (simp add: cap_ok_def split: option.splits)
qed

lemma submatches_whole:
  assumes "match_here r s = Some m" "stays_in C r"
  shows "list_all (in_ranges C) (hd (submatches r s m))"
proof -
  from assms(2) have "groups_within 0 C r" by (rule stays_in_groups)
  from match_here_consumed [OF assms(1) this] assms(2)
  obtain w where "s = w @ fst m" "list_all (in_ranges C) w"
    by (auto simp add: consumed_def)
  then show ?thesis by (simp add: submatches_def)
qed

lemma FindStringSubmatch_group:
  assumes "groups_within i C r" "1 \<le> i"
  shows "i < length (FindStringSubmatch r s) \<Longrightarrow>
         list_all (in_ranges C) (FindStringSubmatch r s ! i)"
proof (induction s)
  case Nil
  then show ?case
    using assms by (auto split: option.splits intro: submatches_group)
next
  case (Cons x xs)
  then show ?case
    using assms by (auto split: option.splits intro: submatches_group)
qed

lemma FindStringSubmatch_whole:
  assumes "stays_in C r"
  shows "list_all (in_ranges C) (hd (FindStringSubmatch r s)) \<or> FindStringSubmatch r s = []"
proof (induction s)
  case Nil
  then show ?case
    using assms by (auto split: option.splits intro: submatches_whole)
next
  case (Cons x xs)
  then show ?case
    using assms by (auto split: option.splits intro: submatches_whole)
qed

lemma find_all_from_group:
  assumes "groups_within i C r" "1 \<le> i"
  shows "ms \<in> set (find_all_from r k s) \<Longrightarrow> i < length ms \<Longrightarrow> list_all (in_ranges C) (ms ! i)"
proof (induction s arbitrary: k)
  case Nil
  then show ?case by simp
next
  case (Cons x xs)
  then show ?case
    using assms by (auto split: option.splits if_splits intro: submatches_group)
qed

lemma find_all_from_whole:
  assumes "stays_in C r"
  shows "ms \<in> set (find_all_from r k s) \<Longrightarrow> list_all (in_ranges C) (hd ms)"
proof (induction s arbitrary: k)
  case Nil
  then show ?case by simp
next
  case (Cons x xs)
  then show ?case
    using assms by (auto split: option.splits if_splits intro: submatches_whole)
qed

section \<open>The amount is never negative\<close>

lemma replaceAll_rune_delete: "replaceAll_rune xs c [] = filter (\<lambda>x. x \<noteq> c) xs"
  by (induction xs) (simp_all add: replaceAll_rune_def)

lemma set_processedStr: "set (processedStr s) \<subseteq> insert period (set s)"
proof -
  let ?one = "\<lambda>i c. replaceAll_rune
                 (slice_to (slice_to s i @ [period] @ slice_from s (i + 1)) i) c []"
  let ?four = "\<lambda>i. replaceAll_rune
                 (replaceAll_rune (slice_to s i) period [] @ slice_from s i) comma []"
  have del: "set (replaceAll_rune xs c []) \<subseteq> set xs" for xs c
    by (auto simp add: replaceAll_rune_delete)
  have pre: "set (slice_to xs i) \<subseteq> set xs" for xs i
    by (simp add: slice_to_def set_take_subset)
  have post: "set (slice_from xs i) \<subseteq> set xs" for xs i
    by (simp add: slice_from_def set_drop_subset)
  have one: "set (?one i c) \<subseteq> insert period (set s)" for i c
    using del [of "slice_to (slice_to s i @ [period] @ slice_from s (i + 1)) i" c]
      pre [of "slice_to s i @ [period] @ slice_from s (i + 1)" i] pre [of s i]
      post [of s "i + 1"]
    by auto
  have four: "set (?four i) \<subseteq> insert period (set s)" for i
    using del [of "replaceAll_rune (slice_to s i) period [] @ slice_from s i" comma]
      del [of "slice_to s i" period] pre [of s i] post [of s i]
    by auto
  have "processedStr s = ?one (lastIndex s comma) period \<or>
        processedStr s = ?one (lastIndex s comma) comma \<or>
        processedStr s = ?four (lastIndex s period) \<or>
        processedStr s = replaceAll_rune s comma [] \<or> processedStr s = s"
    by (simp add: processedStr_def Let_def)
  then show ?thesis
    using one [of "lastIndex s comma" period] one [of "lastIndex s comma" comma]
      four [of "lastIndex s period"] del [of s comma]
    by auto
qed

lemma processedStr_chars:
  assumes "list_all (in_ranges amount_chars) s"
  shows "list_all (in_ranges amount_chars) (processedStr s)"
proof -
  have "in_ranges amount_chars period" by (simp add: in_ranges_def amount_chars_def)
  with assms set_processedStr [of s] show ?thesis
    by (auto simp add: list_all_iff)
qed

lemma pow2_pos: "0 < pow2 e"
  by (simp add: pow2_def)

lemma float64_nonneg: "float64 n d = Some f \<Longrightarrow> 0 \<le> f"
  using pow2_pos [of "max (ilog2 n d) (- 1022) - 52"]
  by (auto simp add: float64_def Let_def split: if_splits prod.splits)

lemma ParseFloat_nonneg:
  assumes "ParseFloat s = Inr a" "s = [] \<or> hd s \<noteq> 45"
  shows "0 \<le> a"
  using assms
  by (auto simp add: ParseFloat_def Let_def split: option.splits if_splits dest: float64_nonneg)

lemma parseAmount_nonneg:
  assumes "list_all (in_ranges amount_chars) s" "parseAmount s = Inr a"
  shows "0 \<le> a"
proof -
  have "\<not> in_ranges amount_chars 45" by (simp add: in_ranges_def amount_chars_def)
  with processedStr_chars [OF assms(1)]
  have "processedStr s = [] \<or> hd (processedStr s) \<noteq> 45"
    by (cases "processedStr s") auto
  with assms(2) show ?thesis
    unfolding parseAmount_def by (rule ParseFloat_nonneg)
qed

lemma amount_re_stays: "stays_in amount_chars amount_re"
  by (simp add: amount_re_def amount_chars_def sep_def re_eval ranges_within_def)

lemma seqs_groups:
  "groups_within i C (seqs rs) = list_all (groups_within i C) rs"
  by (induction rs) (simp_all add: seqs_def)

lemma ilit_groups: "groups_within i C (ilit w)"
  by (simp add: ilit_def seqs_groups list_all_iff icls_def)

lemma lit_groups: "groups_within i C (lit w)"
  by (simp add: lit_def seqs_groups list_all_iff chr_def)

lemma label_groups: "label \<in> set labels \<Longrightarrow> list_all (groups_within i C) label"
  by (auto simp add: labels_def label1_def label2_def ilit_groups opt_def chr_def ws_def)

lemma alts_groups:
  "rs \<noteq> [] \<Longrightarrow> groups_within i C (alts rs) = list_all (groups_within i C) rs"
proof (induction rs)
  case Nil
  then show ?case by simp
next
  case (Cons r rs)
  then show ?case by (cases rs) (simp_all add: alts_def)
qed

lemma curcode_i_groups: "groups_within i C curcode_i"
  by (simp add: curcode_i_def alts_groups ilit_groups cursym_def)

lemma curcode_groups: "groups_within i C curcode"
  by (simp add: curcode_def alts_groups lit_groups cursym_def)

lemma before_pattern_amount:
  "label \<in> set labels \<Longrightarrow> groups_within 2 amount_chars (snd (before_pattern label))"
  using label_groups [of label 2 amount_chars]
  by (simp add: before_pattern_def seqs_groups amount_re_stays cursym_def ws_def stays_in_groups)

lemma after_pattern_amount:
  "label \<in> set labels \<Longrightarrow> groups_within (Suc 0) amount_chars (snd (after_pattern label))"
  using label_groups [of label "Suc 0" amount_chars]
  by (simp add: after_pattern_def seqs_groups amount_re_stays curcode_i_groups ws_def stays_in_groups)

lemma fst_before_pattern: "fst (before_pattern label) = False"
  by (simp add: before_pattern_def)

lemma fst_after_pattern: "fst (after_pattern label) = True"
  by (simp add: after_pattern_def)

lemma patterns_amount:
  "p \<in> set patterns \<Longrightarrow> groups_within (if fst p then Suc 0 else 2) amount_chars (snd p)"
  by (auto simp add: patterns_def fst_before_pattern fst_after_pattern before_pattern_amount
      after_pattern_amount)

lemma patternsNoCurrency_amount:
  "p \<in> set patternsNoCurrency \<Longrightarrow> groups_within (Suc 0) amount_chars p"
  using label_groups [of _ "Suc 0" amount_chars]
  by (auto simp add: patternsNoCurrency_def seqs_groups amount_re_stays stays_in_groups
      dest: in_set_butlastD)

lemma decimal_pattern_amount: "groups_within 2 amount_chars decimal_pattern"
  by (simp add: decimal_pattern_def seqs_groups opt_def amount_re_stays stays_in_groups
      cursym_def ws_def curcode_groups)

lemma keyword_tagged_nonneg:
  assumes "\<And>p. p \<in> set ps \<Longrightarrow> groups_within (if fst p then Suc 0 else 2) amount_chars (snd p)"
  shows "keyword_tagged ps text cur = Inl (a, c) \<Longrightarrow> 0 \<le> a"
  using assms
proof (induction ps arbitrary: cur)
  case Nil
  then show ?case by simp
next
  case (Cons p ps)
  let ?matches = "FindStringSubmatch (snd p) text"
  let ?i = "if fst p then Suc 0 else 2"
  show ?case
  proof (cases "length ?matches > 2")
    case False
    with Cons show ?thesis by (simp add: Let_def)
  next
    case True
    have "groups_within ?i amount_chars (snd p)" by (rule Cons.prems(2)) simp
    moreover have "1 \<le> ?i" by simp
    moreover from True have "?i < length ?matches" by simp
    ultimately have "list_all (in_ranges amount_chars) (?matches ! ?i)"
      by (rule FindStringSubmatch_group)
    then have chars: "list_all (in_ranges amount_chars) (fst (capture_of (fst p) ?matches))"
      by (cases "fst p") (simp_all add: capture_of_def)
    show ?thesis
    proof (cases "parseAmount (fst (capture_of (fst p) ?matches))")
      case (Inr amount)
      with chars have "0 \<le> amount" by (rule parseAmount_nonneg)
      with Cons.prems(1) True Inr show ?thesis by (simp add: Let_def)
    next
      case (Inl err)
      with Cons.prems True
      have "keyword_tagged ps text
              (map_currency (snd (capture_of (fst p) ?matches)) cur) = Inl (a, c)"
        by (simp add: Let_def)
      then show ?thesis by (rule Cons.IH) (simp add: Cons.prems(2))
    qed
  qed
qed

lemma keyword_plain_nonneg:
  assumes "\<And>p. p \<in> set ps \<Longrightarrow> groups_within (Suc 0) amount_chars p"
  shows "keyword_plain ps text cur = Some (a, c) \<Longrightarrow> 0 \<le> a"
  using assms
proof (induction ps)
  case Nil
  then show ?case by simp
next
  case (Cons p ps)
  let ?matches = "FindStringSubmatch p text"
  show ?case
  proof (cases "length ?matches > 1")
    case False
    with Cons show ?thesis by (simp add: Let_def)
  next
    case True
    have "groups_within (Suc 0) amount_chars p" by (rule Cons.prems(2)) simp
    moreover have "1 \<le> Suc 0" by simp
    moreover from True have "Suc 0 < length ?matches" by simp
    ultimately have chars: "list_all (in_ranges amount_chars) (?matches ! Suc 0)"
      by (rule FindStringSubmatch_group)
    show ?thesis
    proof (cases "parseAmount (?matches ! Suc 0)")
      case (Inr amount)
      with chars have "0 \<le> amount" by (rule parseAmount_nonneg)
      with Cons.prems(1) True Inr show ?thesis by (simp add: Let_def)
    next
      case (Inl err)
      with Cons.prems True have "keyword_plain ps text cur = Some (a, c)"
        by (simp add: Let_def)
      then show ?thesis by (rule Cons.IH) (simp add: Cons.prems(2))
    qed
  qed
qed

lemma keyword_lines_nonneg: "keyword_lines textLines cur = Inl (a, c) \<Longrightarrow> 0 \<le> a"
proof (induction textLines arbitrary: cur)
  case Nil
  then show ?case by simp
next
  case (Cons line rest)
  show ?case
  proof (cases "has_amount_keyword (Text line)")
    case False
    with Cons show ?thesis by simp
  next
    case True
    show ?thesis
    proof (cases "keyword_tagged patterns (Text line) cur")
      case (Inl r)
      with Cons.prems True have "keyword_tagged patterns (Text line) cur = Inl (a, c)"
        by simp
      then show ?thesis by (rule keyword_tagged_nonneg [rotated]) (rule patterns_amount)
    next
      case (Inr cur')
      show ?thesis
      proof (cases "keyword_plain patternsNoCurrency (Text line) cur'")
        case None
        with Cons.prems True Inr have "keyword_lines rest cur' = Inl (a, c)" by simp
        then show ?thesis by (rule Cons.IH)
      next
        case (Some r)
        with Cons.prems True Inr
        have "keyword_plain patternsNoCurrency (Text line) cur' = Some (a, c)" by simp
        then show ?thesis
          by (rule keyword_plain_nonneg [rotated]) (rule patternsNoCurrency_amount)
      qed
    qed
  qed
qed

text \<open>
  Claim C9. The amount the resolver returns is never negative. A return from the keyword
  tier is a parsed capture, which consists of digits, commas and periods and so parses to a
  number that is not negative; the two later tiers return their largest amount only when
  it is above 0, and the fallback is 0.
\<close>

theorem amount_nonnegative: "0 \<le> fst (extractAmountFromPosition order textLines)"
proof (cases "keyword_lines textLines
                (if detectDocumentCurrency order textLines \<noteq> []
                 then detectDocumentCurrency order textLines else S ''EUR'')")
  case (Inl r)
  then have "0 \<le> fst r" by (cases r) (auto dest: keyword_lines_nonneg)
  with Inl show ?thesis by (simp add: extractAmountFromPosition_def Let_def)
next
  case (Inr cur)
  then show ?thesis by (simp add: extractAmountFromPosition_def Let_def)
qed

section \<open>What the invoice number resolver returns\<close>

lemma ranges_within_refl: "ranges_within C C"
  by (auto simp add: ranges_within_def list_all_iff list_ex_iff)

lemma number_capture_group: "groups_within (Suc 0) number_chars number_capture"
  by (simp add: number_capture_def plus_def icls_def number_chars_def ranges_within_refl)

lemma number_patterns_group:
  "p \<in> set number_patterns \<Longrightarrow> groups_within (Suc 0) number_chars p"
  by (auto simp add: number_patterns_def seqs_groups ilit_groups number_capture_group no_dot_def
      opt_def chr_def ws_def punct_def icls_def)

lemma number_chars_rune: "in_ranges number_chars x = number_rune x"
  by (auto simp add: number_chars_def fold_ranges_def fold_range_def alnum_hyphen_def
      in_ranges_def number_rune_def is_alnum_def)

lemma alnum_hyphen_rune: "in_ranges alnum_hyphen x \<Longrightarrow> number_rune x"
  by (auto simp add: alnum_hyphen_def in_ranges_def number_rune_def is_alnum_def)

lemma run_pattern_stays: "stays_in alnum_hyphen run_pattern"
  by (simp add: run_pattern_def seqs_def rep_min_def times_numeral alnum_hyphen_def
      ranges_within_def)

lemma set_TrimSpace: "set (TrimSpace s) \<subseteq> set s"
  by (auto simp add: TrimSpace_def dest!: set_dropWhileD)

lemma try_number_patterns_result:
  assumes "\<And>p. p \<in> set ps \<Longrightarrow> groups_within (Suc 0) number_chars p"
  shows "try_number_patterns ps text = Some r \<Longrightarrow> list_all number_rune r \<and> 1 < golen r"
  using assms
proof (induction ps)
  case Nil
  then show ?case by simp
next
  case (Cons p ps)
  let ?matches = "FindStringSubmatch p text"
  show ?case
  proof (cases "1 < length ?matches \<and> 1 < golen (TrimSpace (?matches ! 1))")
    case False
    with Cons.prems have "try_number_patterns ps text = Some r"
      by (auto simp add: Let_def split: if_splits)
    then show ?thesis by (rule Cons.IH) (simp add: Cons.prems(2))
  next
    case True
    with Cons.prems have r: "r = TrimSpace (?matches ! 1)" by (simp add: Let_def)
    have "groups_within (Suc 0) number_chars p" by (rule Cons.prems(2)) simp
    moreover have "1 \<le> Suc 0" by simp
    moreover from True have "Suc 0 < length ?matches" by simp
    ultimately have "list_all (in_ranges number_chars) (?matches ! Suc 0)"
      by (rule FindStringSubmatch_group)
    then have "list_all number_rune (?matches ! 1)"
      by (simp add: number_chars_rune [abs_def])
    with set_TrimSpace [of "?matches ! 1"] have "list_all number_rune r"
      unfolding r by (auto simp add: list_all_iff)
    with True r show ?thesis by simp
  qed
qed

lemma number_patterns_result:
  "try_number_patterns number_patterns text = Some r \<Longrightarrow> list_all number_rune r \<and> 1 < golen r"
  using try_number_patterns_result [of number_patterns _ r] number_patterns_group
  by blast

lemma first_run_result:
  assumes "\<And>m. m \<in> set ms \<Longrightarrow> list_all number_rune m"
  shows "first_run ms = Some r \<Longrightarrow> list_all number_rune r \<and> 2 < golen r"
  using assms
  by (induction ms) (auto simp add: Let_def split: if_splits)

lemma FindAllString_runs:
  assumes "m \<in> set (FindAllString run_pattern text)"
  shows "list_all number_rune m"
proof -
  from assms obtain ms where "ms \<in> set (find_all_from run_pattern 0 text)" "m = hd ms"
    by (auto simp add: FindAllString_def)
  with run_pattern_stays have "list_all (in_ranges alnum_hyphen) m"
    by (auto dest: find_all_from_whole)
  then show ?thesis by (auto simp add: list_all_iff dest: alnum_hyphen_rune)
qed

lemma top_right_lines_result:
  "top_right_lines t h textLines = Some r \<Longrightarrow> list_all number_rune r \<and> 1 < golen r"
proof (induction textLines)
  case Nil
  then show ?case by simp
next
  case (Cons line rest)
  let ?runs = "FindAllString run_pattern (Text line)"
  from Cons.prems consider
      (pattern) "try_number_patterns number_patterns (Text line) = Some r"
    | (run) "first_run ?runs = Some r"
    | (rest) "top_right_lines t h rest = Some r"
    by (auto simp add: Let_def split: if_splits option.splits)
  then show ?case
  proof cases
    case pattern
    then show ?thesis by (rule number_patterns_result)
  next
    case run
    then have "list_all number_rune r \<and> 2 < golen r"
      using first_run_result [of ?runs r] FindAllString_runs by blast
    then show ?thesis by simp
  next
    case rest
    then show ?thesis by (rule Cons.IH)
  qed
qed

lemma number_keyword_lines_result:
  "number_keyword_lines textLines = Some r \<Longrightarrow> list_all number_rune r \<and> 1 < golen r"
  by (induction textLines)
     (auto simp add: Let_def split: if_splits option.splits dest: number_patterns_result)

lemma top_half_lines_result:
  "top_half_lines t textLines = Some r \<Longrightarrow> list_all number_rune r \<and> 1 < golen r"
  by (induction textLines)
     (auto simp add: Let_def split: if_splits option.splits dest: number_patterns_result)

lemma all_lines_result:
  "all_lines textLines = Some r \<Longrightarrow> list_all number_rune r \<and> 1 < golen r"
  by (induction textLines)
     (auto simp add: Let_def split: if_splits option.splits dest: number_patterns_result)

lemma unknown_result: "list_all number_rune (S ''UNKNOWN'') \<and> 1 < golen (S ''UNKNOWN'')"
  by (simp add: S_def number_rune_def is_alnum_def golen_def utf8_width_def)

lemma invoice_number_result:
  "list_all number_rune (extractInvoiceNumberFromPosition textLines) \<and>
   1 < golen (extractInvoiceNumberFromPosition textLines)"
  unfolding extractInvoiceNumberFromPosition_def Let_def
  using unknown_result
  by (auto split: option.splits
      dest: top_right_lines_result number_keyword_lines_result top_half_lines_result
        all_lines_result)

lemma long_s_number: "extractInvoiceNumberFromPosition long_s_doc = [383, 383]"
  by (simp add: extractInvoiceNumberFromPosition_def long_s_doc_def int_eval sdiv_values
      string_eval number_eval re_eval Let_def cong: eval_cong)

lemma long_s_hash_number: "extractInvoiceNumberFromPosition long_s_hash_doc = [383]"
  by (simp add: extractInvoiceNumberFromPosition_def long_s_hash_doc_def int_eval sdiv_values
      string_eval number_eval re_eval Let_def cong: eval_cong)

text \<open>
  Claim C6 fails on \<open>long_s_hash_doc\<close>, the single line \<^verbatim>\<open>#\<close> followed by a long s (U+017F).
  The last pattern, \<^verbatim>\<open>(?i)#\s*([A-Za-z0-9-]+)\<close>, is case-insensitive, so its class accepts the
  long s, and its group captures this one character. The test \<^verbatim>\<open>len(result) > 1\<close> counts
  bytes, and the long s takes two in UTF-8, so the capture is not rejected: the resolver
  returns an invoice number of a single character.
\<close>

theorem single_character_returned:
  "extractInvoiceNumberFromPosition long_s_hash_doc = [383] \<and>
   length (extractInvoiceNumberFromPosition long_s_hash_doc) = 1 \<and>
   golen (extractInvoiceNumberFromPosition long_s_hash_doc) = 2"
  by (simp add: long_s_hash_number golen_def utf8_width_def)

text \<open>
  Claim C10, as stated, fails on \<open>long_s_doc\<close>: the patterns are case-insensitive, and under
  \<^verbatim>\<open>(?i)\<close> the class \<^verbatim>\<open>[A-Za-z0-9-]\<close> also accepts the long s, which is not an ASCII
  character; the resolver returns two of them.
\<close>

theorem long_s_invoice_number:
  "extractInvoiceNumberFromPosition long_s_doc = [383, 383] \<and>
   \<not> list_all (\<lambda>x. is_alnum x \<or> x = 45) (extractInvoiceNumberFromPosition long_s_doc)"
  by (simp add: long_s_number is_alnum_def)

text \<open>
  Claim C10, amended. Every result of the resolver, in every tier, consists of ASCII
  letters, digits, hyphens and the two letters that fold to ASCII letters, U+017F and
  U+212A; so it contains no whitespace. Its length in bytes is at least 2.
\<close>

theorem invoice_number_characters:
  "list_all number_rune (extractInvoiceNumberFromPosition textLines) \<and>
   2 \<le> golen (extractInvoiceNumberFromPosition textLines)"
  using invoice_number_result [of textLines] by simp

section \<open>The tiers of the amount resolver\<close>









lemma zone_of_state:
  "st = zone_of (z_currency st) (z_largestAmount st, z_largestAmountCurrency st)"
  by (simp add: zone_of_def)




























end
